theory Spec2Isabelle
  imports Main "HOL-Library.Word"
begin

unbundle bit_operations_syntax

section \<open>RFC 3095 RTP compression profile (src/comp/c_rtp.c)\<close>

subsection \<open>Data model\<close>

type_synonym u8 = "8 word"
type_synonym u16 = "16 word"
type_synonym u32 = "32 word"

text \<open>
  The packet types and extension types named in \<^verbatim>\<open>c_rtp.c\<close>
  (\<^verbatim>\<open>rohc_packet_t\<close>, \<^verbatim>\<open>rohc_ext_t\<close> of the RFC 3095 framework).
\<close>

datatype rohc_packet_t =
    PACKET_IR
  | PACKET_IR_DYN
  | PACKET_UO_0
  | PACKET_UO_1
  | PACKET_UO_1_RTP
  | PACKET_UO_1_TS
  | PACKET_UO_1_ID
  | PACKET_UOR_2
  | PACKET_UOR_2_RTP
  | PACKET_UOR_2_TS
  | PACKET_UOR_2_ID
  | PACKET_UNKNOWN

datatype rohc_ext_t =
    PACKET_NOEXT
  | PACKET_EXT_0
  | PACKET_EXT_1
  | PACKET_EXT_2
  | PACKET_EXT_3
  | PACKET_EXT_UNKNOWN

datatype ip_version = IP_UNKNOWN | IPV4 | IPV6 | IPV4_MALFORMED | IPV6_MALFORMED

datatype rohc_c_state = IR | FO | SO

datatype ts_sc_state = INIT_TS | INIT_STRIDE | SEND_SCALED

text \<open>
  UDP and RTP headers. A multi-byte field is held by its value in network byte order,
  so \<^verbatim>\<open>ntohs\<close> and \<^verbatim>\<open>ntohl\<close> are the identity on the model and a
  \<^verbatim>\<open>memcpy\<close> of the field writes its bytes most significant first. Bit fields have
  the width the RTP header gives them.
\<close>

record udphdr =
  udp_source :: u16
  udp_dest :: u16
  udp_len :: u16
  udp_check :: u16

record rtphdr =
  rtp_version :: "2 word"
  rtp_padding :: "1 word"
  rtp_extension :: "1 word"
  rtp_cc :: "4 word"
  rtp_m :: "1 word"
  rtp_pt :: "7 word"
  rtp_sn :: u16
  rtp_timestamp :: u32
  rtp_ssrc :: u32

text \<open>
  The scaled RTP timestamp object \<^verbatim>\<open>ts_sc\<close>: the two fields that \<^verbatim>\<open>c_rtp.c\<close>
  reads and writes by name, and the rest of the object, which only the helpers
  \<^verbatim>\<open>is_ts_constant\<close> and \<^verbatim>\<open>get_ts_stride\<close> (defined outside \<^verbatim>\<open>c_rtp.c\<close>, parameters
  of the model) look at.
\<close>

record ts_sc_comp =
  ts_state :: ts_sc_state
  nr_init_stride_packets :: nat
  ts_rest :: "u32 list"

record rtp_tmp_variables =
  send_rtp_dynamic :: int
  tmp_timestamp :: u32
  ts_send :: u32
  nr_ts_bits :: nat
  m_set :: int
  rtp_pt_changed :: int

record sc_rtp_context =
  udp_checksum_change_count :: int
  old_udp :: udphdr
  rtp_pt_change_count :: int
  old_rtp :: rtphdr
  ts_sc :: ts_sc_comp
  rtp_tmp :: rtp_tmp_variables

record ip_header_info =
  ip_flags_version :: ip_version
  ip_flags_rnd :: int

record generic_tmp_variables =
  nr_of_ip_hdr :: int
  nr_sn_bits :: nat
  nr_ip_id_bits :: nat
  nr_ip_id_bits2 :: nat
  send_static :: int
  send_dynamic :: int
  tmp_packet_type :: rohc_packet_t

record c_generic_context =
  g_sn :: u16
  ir_dyn_count :: int
  ip_flags :: ip_header_info
  ip2_flags :: ip_header_info
  g_tmp :: generic_tmp_variables
  g_specific :: "sc_rtp_context option"

record c_context =
  c_mode :: u32
  c_state :: rohc_c_state
  c_specific :: "c_generic_context option"

subsection \<open>Packet decision in Second Order state\<close>

text \<open>
  \<^verbatim>\<open>c_rtp_decide_SO_packet\<close>. The function dereferences the generic context and the
  RTP context without a check, so the model takes both. \<^verbatim>\<open>sdvl_can_length_be_encoded\<close>
  is defined outside \<^verbatim>\<open>c_rtp.c\<close> and is a parameter.
\<close>

definition c_rtp_decide_SO_packet ::
  "(nat \<Rightarrow> bool) \<Rightarrow> c_generic_context \<Rightarrow> sc_rtp_context \<Rightarrow> rohc_packet_t" where
  "c_rtp_decide_SO_packet sdvl_can_length_be_encoded g rtp =
    (let nr_of_ip_hdr = nr_of_ip_hdr (g_tmp g);
         nr_sn_bits = nr_sn_bits (g_tmp g);
         nr_ts_bits = nr_ts_bits (rtp_tmp rtp);
         nr_ip_id_bits = nr_ip_id_bits (g_tmp g);
         is_rnd = (ip_flags_rnd (ip_flags g) \<noteq> 0);
         is_ip_v4 = (ip_flags_version (ip_flags g) = IPV4);
         m_set = m_set (rtp_tmp rtp)
     in
     if nr_of_ip_hdr = 1 then
       (let is_ipv4_non_rnd = (is_ip_v4 \<and> \<not> is_rnd) in
        if \<not> is_ipv4_non_rnd \<and> nr_sn_bits \<le> 4 \<and> nr_ts_bits = 0 \<and> m_set = 0
          then PACKET_UO_0
        else if \<not> is_ipv4_non_rnd \<and> nr_sn_bits \<le> 4 \<and> nr_ts_bits \<le> 6
          then PACKET_UO_1_RTP
        else if \<not> is_ipv4_non_rnd
          then PACKET_UOR_2_RTP
        else if nr_sn_bits \<le> 4 \<and> nr_ip_id_bits = 0 \<and> nr_ts_bits = 0 \<and> m_set = 0
          then PACKET_UO_0
        else if nr_sn_bits \<le> 4 \<and> nr_ip_id_bits = 0 \<and> nr_ts_bits \<le> 5
          then PACKET_UO_1_TS
        else if nr_sn_bits \<le> 4 \<and> nr_ip_id_bits \<le> 5 \<and> nr_ts_bits = 0 \<and> m_set = 0
          then PACKET_UO_1_ID
        else if nr_ip_id_bits > 0 \<and> sdvl_can_length_be_encoded nr_ts_bits
          then PACKET_UOR_2_ID
        else PACKET_UOR_2_TS)
     else
       (let is_ip2_v4 = (ip_flags_version (ip2_flags g) = IPV4);
            is_rnd2 = (ip_flags_rnd (ip2_flags g) \<noteq> 0);
            nr_ip_id_bits2 = nr_ip_id_bits2 (g_tmp g);
            is_outer_ipv4_non_rnd = (is_ip_v4 \<and> \<not> is_rnd);
            is_inner_ipv4_non_rnd = (is_ip2_v4 \<and> \<not> is_rnd2);
            nr_ipv4_non_rnd =
              (if is_outer_ipv4_non_rnd then 1 else 0) +
              (if is_inner_ipv4_non_rnd then 1 else (0::nat));
            nr_ipv4_non_rnd_with_bits =
              (if is_outer_ipv4_non_rnd \<and> nr_ip_id_bits > 0 then 1 else 0) +
              (if is_inner_ipv4_non_rnd \<and> nr_ip_id_bits2 > 0 then 1 else (0::nat))
        in
        if nr_sn_bits \<le> 4 \<and> nr_ipv4_non_rnd_with_bits = 0 \<and> nr_ts_bits = 0 \<and> m_set = 0
          then PACKET_UO_0
        else if nr_ipv4_non_rnd = 0 \<and> nr_sn_bits \<le> 4 \<and> nr_ts_bits \<le> 6
          then PACKET_UO_1_RTP
        else if nr_ipv4_non_rnd_with_bits \<le> 1 \<and>
                (nr_ip_id_bits \<le> 5 \<or> nr_ip_id_bits2 \<le> 5) \<and>
                nr_sn_bits \<le> 4 \<and> nr_ts_bits = 0 \<and> m_set = 0
          then PACKET_UO_1_ID
        else if nr_ipv4_non_rnd_with_bits = 0 \<and> nr_sn_bits \<le> 4 \<and> nr_ts_bits \<le> 5
          then PACKET_UO_1_TS
        else if nr_ipv4_non_rnd = 0
          then PACKET_UOR_2_RTP
        else if nr_ipv4_non_rnd_with_bits \<le> 1 \<and> sdvl_can_length_be_encoded nr_ts_bits
          then PACKET_UOR_2_ID
        else if nr_ipv4_non_rnd = 1
          then PACKET_UOR_2_TS
        else PACKET_IR_DYN))"

text \<open>
  The selection table of the specification for the RTP profile in SO state with a single
  IP header, written row by row from the table; an earlier row wins.
\<close>

definition SO_table_single_ip ::
  "bool \<Rightarrow> nat \<Rightarrow> nat \<Rightarrow> nat \<Rightarrow> int \<Rightarrow> bool \<Rightarrow> rohc_packet_t" where
  "SO_table_single_ip ipv4_non_rnd nr_sn nr_ts nr_id M ts_sdvl_encodable =
    (if \<not> ipv4_non_rnd \<and> nr_sn \<le> 4 \<and> nr_ts = 0 \<and> M = 0 then PACKET_UO_0
     else if \<not> ipv4_non_rnd \<and> nr_sn \<le> 4 \<and> nr_ts \<le> 6 then PACKET_UO_1_RTP
     else if \<not> ipv4_non_rnd then PACKET_UOR_2_RTP
     else if ipv4_non_rnd \<and> nr_sn \<le> 4 \<and> nr_id = 0 \<and> nr_ts = 0 \<and> M = 0 then PACKET_UO_0
     else if ipv4_non_rnd \<and> nr_sn \<le> 4 \<and> nr_id = 0 \<and> nr_ts \<le> 5 then PACKET_UO_1_TS
     else if ipv4_non_rnd \<and> nr_sn \<le> 4 \<and> nr_id \<le> 5 \<and> nr_ts = 0 \<and> M = 0 then PACKET_UO_1_ID
     else if ipv4_non_rnd \<and> nr_id > 0 \<and> ts_sdvl_encodable then PACKET_UOR_2_ID
     else PACKET_UOR_2_TS)"

definition is_ipv4_non_rnd :: "ip_header_info \<Rightarrow> bool" where
  "is_ipv4_non_rnd f = (ip_flags_version f = IPV4 \<and> ip_flags_rnd f = 0)"

subsection \<open>Packet decision in First Order state\<close>

text \<open>
  \<^verbatim>\<open>c_rtp_decide_FO_packet\<close>. The counter \<^verbatim>\<open>ir_dyn_count\<close> of the generic context is
  written through the pointer, so the updated generic context is returned with the
  packet type. \<^verbatim>\<open>MAX_FO_COUNT\<close> is defined outside \<^verbatim>\<open>c_rtp.c\<close> and is a parameter.
\<close>

definition c_rtp_decide_FO_packet ::
  "int \<Rightarrow> (nat \<Rightarrow> bool) \<Rightarrow> c_generic_context \<Rightarrow> sc_rtp_context
     \<Rightarrow> rohc_packet_t \<times> c_generic_context" where
  "c_rtp_decide_FO_packet MAX_FO_COUNT sdvl_can_length_be_encoded g rtp =
    (let nr_of_ip_hdr = nr_of_ip_hdr (g_tmp g);
         nr_sn_bits = nr_sn_bits (g_tmp g);
         nr_ts_bits = nr_ts_bits (rtp_tmp rtp)
     in
     if send_static (g_tmp g) \<noteq> 0 then
       (PACKET_UOR_2_RTP, g\<lparr>ir_dyn_count := 0\<rparr>)
     else if ir_dyn_count g < MAX_FO_COUNT then
       (PACKET_IR_DYN, g\<lparr>ir_dyn_count := ir_dyn_count g + 1\<rparr>)
     else if nr_of_ip_hdr = 1 \<and> send_dynamic (g_tmp g) > 2 then
       (PACKET_IR_DYN, g)
     else if nr_of_ip_hdr > 1 \<and> send_dynamic (g_tmp g) > 4 then
       (PACKET_IR_DYN, g)
     else if nr_sn_bits \<le> 14 then
       (let is_ip_v4 = (ip_flags_version (ip_flags g) = IPV4);
            is_rnd = (ip_flags_rnd (ip_flags g) \<noteq> 0);
            nr_ip_id_bits = nr_ip_id_bits (g_tmp g)
        in
        if nr_of_ip_hdr = 1 then
          (let is_ipv4_non_rnd = (is_ip_v4 \<and> \<not> is_rnd) in
           if \<not> is_ipv4_non_rnd then (PACKET_UOR_2_RTP, g)
           else if nr_ip_id_bits > 0 \<and> sdvl_can_length_be_encoded nr_ts_bits
             then (PACKET_UOR_2_ID, g)
           else (PACKET_UOR_2_TS, g))
        else
          (let is_ip2_v4 = (ip_flags_version (ip2_flags g) = IPV4);
               is_rnd2 = (ip_flags_rnd (ip2_flags g) \<noteq> 0);
               nr_ip_id_bits2 = nr_ip_id_bits2 (g_tmp g);
               is_outer_ipv4_non_rnd = (is_ip_v4 \<and> \<not> is_rnd);
               is_inner_ipv4_non_rnd = (is_ip2_v4 \<and> \<not> is_rnd2);
               nr_ipv4_non_rnd =
                 (if is_outer_ipv4_non_rnd then 1 else 0) +
                 (if is_inner_ipv4_non_rnd then 1 else (0::nat));
               nr_ipv4_non_rnd_with_bits =
                 (if is_outer_ipv4_non_rnd \<and> nr_ip_id_bits > 0 then 1 else 0) +
                 (if is_inner_ipv4_non_rnd \<and> nr_ip_id_bits2 > 0 then 1 else (0::nat))
           in
           if nr_ipv4_non_rnd = 0 then (PACKET_UOR_2_RTP, g)
           else if nr_ipv4_non_rnd_with_bits \<le> 1 \<and> sdvl_can_length_be_encoded nr_ts_bits
             then (PACKET_UOR_2_ID, g)
           else if nr_ipv4_non_rnd = 1 then (PACKET_UOR_2_TS, g)
           else (PACKET_IR_DYN, g)))
     else (PACKET_IR_DYN, g))"

text \<open>The UOR-2 packet types.\<close>

definition is_UOR_2_variant :: "rohc_packet_t \<Rightarrow> bool" where
  "is_UOR_2_variant p =
     (p = PACKET_UOR_2 \<or> p = PACKET_UOR_2_RTP \<or> p = PACKET_UOR_2_TS \<or> p = PACKET_UOR_2_ID)"

subsection \<open>Extension decision\<close>

text \<open>
  \<^verbatim>\<open>c_rtp_decide_extension\<close>. The generic \<^verbatim>\<open>decide_extension\<close> shared by the IP-based
  profiles is defined outside \<^verbatim>\<open>c_rtp.c\<close> and is a parameter; it receives the whole
  compression context. The RTP context reached through the two \<^verbatim>\<open>specific\<close> pointers
  is dereferenced without a check and is passed on its own.
\<close>

definition c_rtp_decide_extension ::
  "(c_context \<Rightarrow> rohc_ext_t) \<Rightarrow> c_context \<Rightarrow> sc_rtp_context \<Rightarrow> rohc_ext_t" where
  "c_rtp_decide_extension decide_extension context rtp =
    (if send_rtp_dynamic (rtp_tmp rtp) > 0 then PACKET_EXT_3
     else decide_extension context)"

subsection \<open>Change detection on the RTP dynamic fields\<close>

text \<open>
  \<^verbatim>\<open>rtp_changed_rtp_dynamic\<close>: returns the number of changed fields and the RTP context
  with the counters and temporary variables it writes. \<^verbatim>\<open>MAX_IR_COUNT\<close> is a parameter.
\<close>

definition udp_checksum_behaviour_changed :: "sc_rtp_context \<Rightarrow> udphdr \<Rightarrow> bool" where
  "udp_checksum_behaviour_changed rtp_context udp =
     ((udp_check udp \<noteq> 0 \<and> udp_check (old_udp rtp_context) = 0) \<or>
      (udp_check udp = 0 \<and> udp_check (old_udp rtp_context) \<noteq> 0))"

definition rtp_changed_rtp_dynamic ::
  "int \<Rightarrow> sc_rtp_context \<Rightarrow> udphdr \<Rightarrow> rtphdr \<Rightarrow> int \<times> sc_rtp_context" where
  "rtp_changed_rtp_dynamic MAX_IR_COUNT rtp_context udp rtp =
    (let fields0 = (0::int);
         c1 = (if udp_checksum_behaviour_changed rtp_context udp \<or>
                  udp_checksum_change_count rtp_context < MAX_IR_COUNT
               then (if udp_checksum_behaviour_changed rtp_context udp
                     then rtp_context\<lparr>udp_checksum_change_count := 0\<rparr>
                     else rtp_context)
               else rtp_context);
         fields1 = (if rtp_cc rtp \<noteq> rtp_cc (old_rtp c1) then fields0 + 2 else fields0);
         fields2 = (if rtp_ssrc rtp \<noteq> rtp_ssrc (old_rtp c1) then fields1 + 1 else fields1);
         c2 = c1\<lparr>rtp_tmp := (rtp_tmp c1)\<lparr>m_set := (if rtp_m rtp \<noteq> 0 then 1 else 0)\<rparr>\<rparr>;
         c3 = (if rtp_pt rtp \<noteq> rtp_pt (old_rtp c2) \<or> rtp_pt_change_count c2 < MAX_IR_COUNT
               then (if rtp_pt rtp \<noteq> rtp_pt (old_rtp c2)
                     then c2\<lparr>rtp_tmp := (rtp_tmp c2)\<lparr>rtp_pt_changed := 1\<rparr>,
                             rtp_pt_change_count := 0\<rparr>
                     else c2)
               else c2\<lparr>rtp_tmp := (rtp_tmp c2)\<lparr>rtp_pt_changed := 0\<rparr>\<rparr>);
         fields3 = (if rtp_pt rtp \<noteq> rtp_pt (old_rtp c2) \<or> rtp_pt_change_count c2 < MAX_IR_COUNT
                    then fields2 + 1 else fields2);
         c4 = c3\<lparr>rtp_tmp := (rtp_tmp c3)\<lparr>tmp_timestamp := rtp_timestamp rtp\<rparr>\<rparr>
     in (fields3, c4))"

subsection \<open>Dynamic part of the UDP/RTP headers\<close>





datatype 'a or_abort = Assertion_failed | Returns 'a



subsection \<open>Encoding one packet\<close>

text \<open>
  An IP packet as \<^verbatim>\<open>c_rtp_encode\<close> sees it through the accessors of the IP module
  (defined outside \<^verbatim>\<open>c_rtp.c\<close>): its protocol number, the inner IP packet when one
  can be built, and the UDP and RTP headers found at the next layer.
\<close>

datatype ip_packet =
  Ip_packet (ip_get_protocol: nat) (ip_get_inner_packet: "ip_packet option")
            (ip_get_next_layer: "udphdr \<times> rtphdr")

definition IPPROTO_IPIP :: nat where "IPPROTO_IPIP = 4"
definition IPPROTO_UDP :: nat where "IPPROTO_UDP = 17"
definition IPPROTO_IPV6 :: nat where "IPPROTO_IPV6 = 41"

text \<open>
  The result of \<^verbatim>\<open>c_generic_encode\<close> (defined outside \<^verbatim>\<open>c_rtp.c\<close>, a parameter): the
  size it returns, the three context objects after the call (the C pointers to the
  generic and RTP contexts, read before the call, still point to the same objects after
  it), the buffer and the two output parameters.
\<close>

record encode_result =
  enc_size :: int
  enc_context :: c_context
  enc_g_context :: c_generic_context
  enc_rtp_context :: sc_rtp_context
  enc_dest :: "u8 list"
  enc_packet_type :: rohc_packet_t
  enc_payload_offset :: int

type_synonym generic_encode =
  "c_context \<Rightarrow> c_generic_context \<Rightarrow> sc_rtp_context \<Rightarrow> ip_packet \<Rightarrow> int \<Rightarrow> u8 list \<Rightarrow> int
     \<Rightarrow> rohc_packet_t \<Rightarrow> int \<Rightarrow> encode_result"

text \<open>
  \<^verbatim>\<open>c_rtp_encode\<close>. The early returns (-1) leave every object as it was. After a
  successful generic encoding the stored UDP and RTP headers are replaced when the
  packet type recorded in the generic context is IR or IR-DYN.
\<close>

definition encode_failed ::
  "c_context \<Rightarrow> u8 list \<Rightarrow> rohc_packet_t \<Rightarrow> int \<Rightarrow> int \<times> c_context \<times> u8 list \<times> rohc_packet_t \<times> int" where
  "encode_failed context dest packet_type payload_offset =
     (-1, context, dest, packet_type, payload_offset)"

text \<open>
  The first step of \<^verbatim>\<open>c_rtp_encode\<close> on the headers: the number of changed RTP dynamic
  fields is stored in \<^verbatim>\<open>tmp.send_rtp_dynamic\<close>.
\<close>

definition record_rtp_changes ::
  "int \<Rightarrow> sc_rtp_context \<Rightarrow> udphdr \<Rightarrow> rtphdr \<Rightarrow> sc_rtp_context" where
  "record_rtp_changes MAX_IR_COUNT rtp_context udp rtp =
     (let changed = rtp_changed_rtp_dynamic MAX_IR_COUNT rtp_context udp rtp
      in (snd changed)\<lparr>rtp_tmp := (rtp_tmp (snd changed))\<lparr>send_rtp_dynamic := fst changed\<rparr>\<rparr>)"

definition last_ip_header_of :: "ip_packet \<Rightarrow> ip_packet option" where
  "last_ip_header_of ip =
     (if ip_get_protocol ip = IPPROTO_IPIP \<or> ip_get_protocol ip = IPPROTO_IPV6
      then ip_get_inner_packet ip else Some ip)"

definition c_rtp_encode ::
  "int \<Rightarrow> generic_encode \<Rightarrow> c_context \<Rightarrow> ip_packet \<Rightarrow> int \<Rightarrow> u8 list \<Rightarrow> int
     \<Rightarrow> rohc_packet_t \<Rightarrow> int \<Rightarrow> int \<times> c_context \<times> u8 list \<times> rohc_packet_t \<times> int" where
  "c_rtp_encode MAX_IR_COUNT c_generic_encode context ip packet_size dest dest_size
                packet_type payload_offset =
    (case c_specific context of
       None \<Rightarrow> encode_failed context dest packet_type payload_offset
     | Some g_context \<Rightarrow>
    (case g_specific g_context of
       None \<Rightarrow> encode_failed context dest packet_type payload_offset
     | Some rtp_context \<Rightarrow>
    (case last_ip_header_of ip of
       None \<Rightarrow> encode_failed context dest packet_type payload_offset
     | Some last_ip_header \<Rightarrow>
       if ip_get_protocol last_ip_header \<noteq> IPPROTO_UDP then
         encode_failed context dest packet_type payload_offset
       else
         (let udp = fst (ip_get_next_layer last_ip_header);
              rtp = snd (ip_get_next_layer last_ip_header);
              rtp_context1 = record_rtp_changes MAX_IR_COUNT rtp_context udp rtp;
              r = c_generic_encode context g_context rtp_context1 ip packet_size dest dest_size
                    packet_type payload_offset;
              rtp_context2 =
                (if enc_size r < 0 then enc_rtp_context r
                 else if tmp_packet_type (g_tmp (enc_g_context r)) = PACKET_IR \<or>
                         tmp_packet_type (g_tmp (enc_g_context r)) = PACKET_IR_DYN
                 then (enc_rtp_context r)\<lparr>old_udp := udp, old_rtp := rtp\<rparr>
                 else enc_rtp_context r)
          in (enc_size r,
              (enc_context r)\<lparr>c_specific :=
                 Some ((enc_g_context r)\<lparr>g_specific := Some rtp_context2\<rparr>)\<rparr>,
              enc_dest r, enc_packet_type r, enc_payload_offset r)))))"

text \<open>The RTP context that a compression context holds, when both pointers are set.\<close>

definition rtp_context_of :: "c_context \<Rightarrow> sc_rtp_context option" where
  "rtp_context_of context =
     (case c_specific context of None \<Rightarrow> None | Some g \<Rightarrow> g_specific g)"

subsection \<open>Example values\<close>

text \<open>
  Modelled from the spec: \<^verbatim>\<open>sdvl_can_length_be_encoded\<close> is missing from the sources; the
  specification says that SDVL carries at most 29 bits of payload.
\<close>

definition sdvl_can_length_be_encoded :: "nat \<Rightarrow> bool" where
  "sdvl_can_length_be_encoded bits_nr = (bits_nr \<le> 29)"

definition example_udp :: udphdr where
  "example_udp = \<lparr>udp_source = 1234, udp_dest = 5020, udp_len = 28, udp_check = 0\<rparr>"

definition example_rtp :: rtphdr where
  "example_rtp = \<lparr>rtp_version = 2, rtp_padding = 0, rtp_extension = 0, rtp_cc = 0,
     rtp_m = 0, rtp_pt = 8, rtp_sn = 7, rtp_timestamp = 1120, rtp_ssrc = 0x11223344\<rparr>"

definition example_ts_sc :: ts_sc_comp where
  "example_ts_sc = \<lparr>ts_state = INIT_STRIDE, nr_init_stride_packets = 2, ts_rest = [160]\<rparr>"

definition example_rtp_context :: sc_rtp_context where
  "example_rtp_context = \<lparr>udp_checksum_change_count = 3, old_udp = example_udp,
     rtp_pt_change_count = 3, old_rtp = example_rtp, ts_sc = example_ts_sc,
     rtp_tmp = \<lparr>send_rtp_dynamic = 0, tmp_timestamp = 0, ts_send = 0, nr_ts_bits = 3,
                m_set = 0, rtp_pt_changed = 0\<rparr>\<rparr>"

definition example_g_context :: c_generic_context where
  "example_g_context = \<lparr>g_sn = 7, ir_dyn_count = 3,
     ip_flags = \<lparr>ip_flags_version = IPV4, ip_flags_rnd = 0\<rparr>,
     ip2_flags = \<lparr>ip_flags_version = IP_UNKNOWN, ip_flags_rnd = 0\<rparr>,
     g_tmp = \<lparr>nr_of_ip_hdr = 1, nr_sn_bits = 4, nr_ip_id_bits = 0, nr_ip_id_bits2 = 0,
              send_static = 0, send_dynamic = 3, tmp_packet_type = PACKET_IR_DYN\<rparr>,
     g_specific = Some example_rtp_context\<rparr>"

definition example_context :: c_context where
  "example_context = \<lparr>c_mode = 1, c_state = FO, c_specific = Some example_g_context\<rparr>"

text \<open>A generic context in which a static field and three dynamic fields changed.\<close>

definition example_g_context_static :: c_generic_context where
  "example_g_context_static =
     example_g_context\<lparr>g_tmp := (g_tmp example_g_context)\<lparr>send_static := 1\<rparr>\<rparr>"


definition example_ip_packet :: ip_packet where
  "example_ip_packet = Ip_packet 17 None (example_udp, example_rtp\<lparr>rtp_sn := 8\<rparr>)"

text \<open>
  An example generic encoding: it records the given packet type in the generic context
  and reports a 20-byte ROHC packet.
\<close>

definition example_generic_encode :: "rohc_packet_t \<Rightarrow> generic_encode" where
  "example_generic_encode t context g r ip packet_size dest dest_size packet_type payload_offset =
     \<lparr>enc_size = 20, enc_context = context,
      enc_g_context = g\<lparr>g_tmp := (g_tmp g)\<lparr>tmp_packet_type := t\<rparr>\<rparr>,
      enc_rtp_context = r, enc_dest = dest, enc_packet_type = t,
      enc_payload_offset = 28\<rparr>"

section \<open>ROHCv2 IP-only compression profile (src/comp/comp_rfc5225_ip.c)\<close>

text \<open>
  The packet types of the ROHCv2 sources (their \<^verbatim>\<open>rohc_packet_t\<close>; the RFC 3095 sources
  above use an older enumeration of the same name).
\<close>

datatype rohc_packet_v2_t =
    ROHC_PACKET_IR
  | ROHC_PACKET_NORMAL
  | ROHC_PACKET_CO_COMMON
  | ROHC_PACKET_CO_REPAIR
  | ROHC_PACKET_PT_0_CRC3
  | ROHC_PACKET_NORTP_PT_0_CRC7
  | ROHC_PACKET_NORTP_PT_1_SEQ_ID
  | ROHC_PACKET_NORTP_PT_2_SEQ_ID
  | ROHC_PACKET_UNKNOWN

datatype rohc_comp_state_t =
  ROHC_COMP_STATE_UNKNOWN | ROHC_COMP_STATE_IR | ROHC_COMP_STATE_FO | ROHC_COMP_STATE_SO

datatype rohc_mode_t = ROHC_U_MODE | ROHC_O_MODE | ROHC_R_MODE

datatype rohc_cid_type_t = ROHC_LARGE_CID | ROHC_SMALL_CID

text \<open>
  The compression context, with the medium's CID type that the functions read through
  \<^verbatim>\<open>context->compressor\<close>.
\<close>

record rohc_comp_ctxt =
  ctxt_cid :: nat
  ctxt_cid_type :: rohc_cid_type_t
  ctxt_state :: rohc_comp_state_t
  ctxt_mode :: rohc_mode_t
  ctxt_ir_count :: nat
  ctxt_fo_count :: nat

text \<open>
  An uncompressed packet holds at least one byte (its profile check saw an IP header),
  so its first byte is a field of its own.
\<close>

record net_pkt =
  pkt_first_byte :: u8
  pkt_rest :: "u8 list"

text \<open>
  The functions that the profile calls and that are defined in other files:
  \<^verbatim>\<open>code_cid_values\<close> returns its status, the buffer it wrote the CID bytes to and the
  position left for the first byte of the packet; \<^verbatim>\<open>crc_calculate\<close> is used for the CRC-8
  of a prefix of the buffer, with the initial value and table of the compressor.
\<close>

record comp_helpers =
  code_cid_values :: "rohc_cid_type_t \<Rightarrow> nat \<Rightarrow> u8 list \<Rightarrow> nat \<Rightarrow> int \<times> u8 list \<times> nat"
  crc_calculate_8 :: "u8 list \<Rightarrow> nat \<Rightarrow> u8"

text \<open>
  Modelled from the spec: the profile identifier \<^verbatim>\<open>ROHCv2_PROFILE_IP\<close> is missing from the
  sources; the specification lists 0x0004 for IP-only and 0x0101 to 0x0107 for the ROHCv2
  counterparts, so the ROHCv2 IP-only profile is 0x0104.
\<close>

definition ROHCv2_PROFILE_IP :: u16 where
  "ROHCv2_PROFILE_IP = 0x0104"

text \<open>Subtraction on \<^verbatim>\<open>size_t\<close> (taken as 64 bits wide) wraps around.\<close>

definition size_t_sub :: "nat \<Rightarrow> nat \<Rightarrow> nat" where
  "size_t_sub a b = nat ((int a - int b) mod 2 ^ 64)"

text \<open>
  The result of the two packet builders: the returned length (-1 on error), the buffer
  and the payload offset, which keeps its former value when the builder fails.
\<close>

record code_result =
  code_size :: int
  code_rohc_pkt :: "u8 list"
  code_payload_offset :: nat

text \<open>\<^verbatim>\<open>rohc_comp_rfc5225_ip_code_IR_packet\<close>.\<close>

definition rohc_comp_rfc5225_ip_code_IR_packet ::
  "comp_helpers \<Rightarrow> rohc_comp_ctxt \<Rightarrow> net_pkt \<Rightarrow> u8 list \<Rightarrow> nat \<Rightarrow> nat \<Rightarrow> code_result" where
  "rohc_comp_rfc5225_ip_code_IR_packet H context uncomp_pkt rohc_pkt rohc_pkt_max_len payload_offset =
    (case code_cid_values H (ctxt_cid_type context) (ctxt_cid context) rohc_pkt rohc_pkt_max_len of
       (ret, pkt1, first_position) \<Rightarrow>
         if ret < 1 then
           \<lparr>code_size = -1, code_rohc_pkt = pkt1, code_payload_offset = payload_offset\<rparr>
         else
           (let counter = nat ret;
                \<comment> \<open>part 2\<close>
                pkt2 = pkt1[first_position := 0xfc]
            in
            if size_t_sub rohc_pkt_max_len counter < 2 then
              \<lparr>code_size = -1, code_rohc_pkt = pkt2, code_payload_offset = payload_offset\<rparr>
            else
              (let \<comment> \<open>part 4\<close>
                   pkt4 = pkt2[counter := ucast (ROHCv2_PROFILE_IP AND 0xff)];
                   counter4 = counter + 1;
                   \<comment> \<open>part 5\<close>
                   pkt5 = pkt4[counter4 := 0];
                   pkt5' = pkt5[counter4 := crc_calculate_8 H pkt5 counter4];
                   counter5 = counter4 + 1
               in \<lparr>code_size = int counter5, code_rohc_pkt = pkt5', code_payload_offset = 0\<rparr>)))"

text \<open>\<^verbatim>\<open>rohc_comp_rfc5225_ip_code_normal_packet\<close>.\<close>

definition rohc_comp_rfc5225_ip_code_normal_packet ::
  "comp_helpers \<Rightarrow> rohc_comp_ctxt \<Rightarrow> net_pkt \<Rightarrow> u8 list \<Rightarrow> nat \<Rightarrow> nat \<Rightarrow> code_result" where
  "rohc_comp_rfc5225_ip_code_normal_packet H context uncomp_pkt rohc_pkt rohc_pkt_max_len payload_offset =
    (case code_cid_values H (ctxt_cid_type context) (ctxt_cid context) rohc_pkt rohc_pkt_max_len of
       (ret, pkt1, first_position) \<Rightarrow>
         if ret < 1 then
           \<lparr>code_size = -1, code_rohc_pkt = pkt1, code_payload_offset = payload_offset\<rparr>
         else
           \<lparr>code_size = ret, code_rohc_pkt = pkt1[first_position := pkt_first_byte uncomp_pkt],
            code_payload_offset = 1\<rparr>)"

text \<open>
  \<^verbatim>\<open>rohc_comp_rfc5225_ip_code_packet\<close>: the value the function leaves in
  \<^verbatim>\<open>*packet_type\<close>, and either the context and the build result it returns with, or
  the abort of \<^verbatim>\<open>assert(0)\<close> in a state that is neither IR nor FO.
\<close>

definition rohc_comp_rfc5225_ip_code_packet ::
  "comp_helpers \<Rightarrow> rohc_comp_ctxt \<Rightarrow> net_pkt \<Rightarrow> u8 list \<Rightarrow> nat \<Rightarrow> nat
     \<Rightarrow> rohc_packet_v2_t \<times> (rohc_comp_ctxt \<times> code_result) or_abort" where
  "rohc_comp_rfc5225_ip_code_packet H context uncomp_pkt rohc_pkt rohc_pkt_max_len payload_offset =
    (let packet_type =
           (if ctxt_state context = ROHC_COMP_STATE_IR then ROHC_PACKET_IR
            else if ctxt_state context = ROHC_COMP_STATE_FO then ROHC_PACKET_NORMAL
            else ROHC_PACKET_UNKNOWN)
     in
     if ctxt_state context \<noteq> ROHC_COMP_STATE_IR \<and> ctxt_state context \<noteq> ROHC_COMP_STATE_FO then
       (packet_type, Assertion_failed)
     else if packet_type = ROHC_PACKET_IR then
       (let context' = context\<lparr>ctxt_ir_count := ctxt_ir_count context + 1\<rparr>
        in (packet_type,
            Returns (context', rohc_comp_rfc5225_ip_code_IR_packet H context' uncomp_pkt
                                 rohc_pkt rohc_pkt_max_len payload_offset)))
     else
       (let context' = context\<lparr>ctxt_fo_count := ctxt_fo_count context + 1\<rparr>
        in (packet_type,
            Returns (context', rohc_comp_rfc5225_ip_code_normal_packet H context' uncomp_pkt
                                 rohc_pkt rohc_pkt_max_len payload_offset))))"

subsection \<open>Example values\<close>

text \<open>
  Modelled from the spec: \<^verbatim>\<open>code_cid_values\<close> is missing from the sources. For small CIDs
  the specification puts an Add-CID octet \<^verbatim>\<open>1110 CCCC\<close> before the first octet when the
  CID is not 0; for large CIDs the CID follows the first octet in SDVL (one byte below
  128, two bytes with prefix \<^verbatim>\<open>10\<close> below 16384).
\<close>

definition example_code_cid_values ::
  "rohc_cid_type_t \<Rightarrow> nat \<Rightarrow> u8 list \<Rightarrow> nat \<Rightarrow> int \<times> u8 list \<times> nat" where
  "example_code_cid_values cid_type cid dest dest_size =
    (case cid_type of
       ROHC_SMALL_CID \<Rightarrow>
         if cid = 0 then (if dest_size < 1 then (-1, dest, 0) else (1, dest, 0))
         else if dest_size < 2 then (-1, dest, 0)
         else (2, dest[0 := 0xe0 OR (of_nat cid AND 0x0f)], 1)
     | ROHC_LARGE_CID \<Rightarrow>
         if cid < 128 then
           (if dest_size < 2 then (-1, dest, 0) else (2, dest[1 := of_nat cid], 0))
         else if dest_size < 3 then (-1, dest, 0)
         else (3, dest[1 := 0x80 OR of_nat (cid div 256), 2 := of_nat cid], 0))"

text \<open>An example checksum in the place of the CRC-8: the exclusive or of the bytes.\<close>

definition example_crc_8 :: "u8 list \<Rightarrow> nat \<Rightarrow> u8" where
  "example_crc_8 bs n = foldl (XOR) 0xff (take n bs)"

definition example_comp_helpers :: comp_helpers where
  "example_comp_helpers =
     \<lparr>code_cid_values = example_code_cid_values, crc_calculate_8 = example_crc_8\<rparr>"

definition example_comp_ctxt :: rohc_comp_ctxt where
  "example_comp_ctxt = \<lparr>ctxt_cid = 0, ctxt_cid_type = ROHC_SMALL_CID,
     ctxt_state = ROHC_COMP_STATE_IR, ctxt_mode = ROHC_U_MODE,
     ctxt_ir_count = 0, ctxt_fo_count = 0\<rparr>"

definition example_net_pkt :: net_pkt where
  "example_net_pkt = \<lparr>pkt_first_byte = 0x45, pkt_rest = [0x00, 0x00, 0x1c]\<rparr>"

section \<open>ROHCv2 IP/UDP/RTP decompression profile (src/decomp/decomp_rfc5225_ip_udp_rtp.c)\<close>

subsection \<open>Status of a step\<close>

text \<open>
  A parsing or decoding step returns a value, returns its error status (\<^verbatim>\<open>false\<close> or
  -1), or stops the program on a failed \<^verbatim>\<open>assert\<close>.
\<close>

datatype 'a result = Assert_abort | Error_status | Success 'a

definition result_bind :: "'a result \<Rightarrow> ('a \<Rightarrow> 'b result) \<Rightarrow> 'b result" where
  "result_bind m f =
     (case m of Assert_abort \<Rightarrow> Assert_abort | Error_status \<Rightarrow> Error_status | Success x \<Rightarrow> f x)"

subsection \<open>Wire structures\<close>

text \<open>
  The structures of \<^verbatim>\<open>protocols/rfc5225.h\<close> that the parser casts the packet bytes to are
  not among the sources. Each is a record of the fields that the parser reads; its size
  and the function that reads the fields from the bytes of the structure are parameters
  of the model (record \<^verbatim>\<open>wire_layout\<close>). A 16-bit field is held by its value in network
  byte order, an address by its bytes.
\<close>

record ipv4_static_t =
  s4_innermost_ip :: "1 word"
  s4_reserved :: u8
  s4_protocol :: u8
  s4_src_addr :: "u8 list"
  s4_dst_addr :: "u8 list"

record ipv6_static_nofl_t =
  s6n_innermost_ip :: "1 word"
  s6n_reserved1 :: u8
  s6n_reserved2 :: u8
  s6n_next_header :: u8
  s6n_src_addr :: "u8 list"
  s6n_dst_addr :: "u8 list"

record ipv6_static_fl_t =
  s6f_innermost_ip :: "1 word"
  s6f_reserved :: u8
  s6f_flow_label_msb :: "4 word"
  s6f_flow_label_lsb :: u16
  s6f_next_header :: u8
  s6f_src_addr :: "u8 list"
  s6f_dst_addr :: "u8 list"

record udp_static_t =
  us_src_port :: u16
  us_dst_port :: u16

record ipv4_regular_dynamic_noipid_t =
  d4_reserved :: u8
  d4_df :: "1 word"
  d4_ip_id_behavior :: "2 word"
  d4_tos_tc :: u8
  d4_ttl_hopl :: u8

record ipv4_regular_dynamic_ipid_t =
  d4i_ip_id :: u16

record ipv6_regular_dynamic_t =
  d6_tos_tc :: u8
  d6_ttl_hopl :: u8

record udp_endpoint_dynamic_t =
  ud_checksum :: u16
  ud_msn :: u16
  ud_reorder_ratio :: "2 word"

record wire_layout =
  ROHC_MAX_IP_HDRS :: nat
  ROHC_IP_ID_BEHAVIOR_SEQ :: "2 word"
  ROHC_IP_ID_BEHAVIOR_SEQ_SWAP :: "2 word"
  ROHC_IP_ID_BEHAVIOR_RAND :: "2 word"
  ROHC_IP_ID_BEHAVIOR_ZERO :: "2 word"
  sizeof_ipv4_static_t :: nat
  as_ipv4_static_t :: "u8 list \<Rightarrow> ipv4_static_t"
  sizeof_ipv6_static_nofl_t :: nat
  as_ipv6_static_nofl_t :: "u8 list \<Rightarrow> ipv6_static_nofl_t"
  sizeof_ipv6_static_fl_t :: nat
  as_ipv6_static_fl_t :: "u8 list \<Rightarrow> ipv6_static_fl_t"
  sizeof_udp_static_t :: nat
  as_udp_static_t :: "u8 list \<Rightarrow> udp_static_t"
  sizeof_ipv4_regular_dynamic_noipid_t :: nat
  as_ipv4_regular_dynamic_noipid_t :: "u8 list \<Rightarrow> ipv4_regular_dynamic_noipid_t"
  sizeof_ipv4_regular_dynamic_ipid_t :: nat
  as_ipv4_regular_dynamic_ipid_t :: "u8 list \<Rightarrow> ipv4_regular_dynamic_ipid_t"
  sizeof_ipv6_regular_dynamic_t :: nat
  as_ipv6_regular_dynamic_t :: "u8 list \<Rightarrow> ipv6_regular_dynamic_t"
  sizeof_udp_endpoint_dynamic_t :: nat
  as_udp_endpoint_dynamic_t :: "u8 list \<Rightarrow> udp_endpoint_dynamic_t"

text \<open>A pointer cast to a structure sees the bytes of the structure only.\<close>

definition struct_bytes :: "nat \<Rightarrow> u8 list \<Rightarrow> u8 list" where
  "struct_bytes n remain_data = take n remain_data"

text \<open>
  Modelled from the spec: the structure \<^verbatim>\<open>co_repair_crc_t\<close> is missing from the sources.
  The specification gives the two bytes after the CID of a co_repair packet as
  \<^verbatim>\<open>0 CRC-7\<close> (header CRC) and \<^verbatim>\<open>00000 CRC-3\<close> (control CRC); the parser names the
  leading zero bits \<^verbatim>\<open>r1\<close> and \<^verbatim>\<open>r2\<close>.
\<close>

record co_repair_crc_t =
  cr_r1 :: u8
  cr_header_crc :: u8
  cr_r2 :: u8
  cr_ctrl_crc :: u8

definition sizeof_co_repair_crc_t :: nat where
  "sizeof_co_repair_crc_t = 2"

definition as_co_repair_crc_t :: "u8 list \<Rightarrow> co_repair_crc_t" where
  "as_co_repair_crc_t bs =
     \<lparr>cr_r1 = drop_bit 7 (bs ! 0), cr_header_crc = (bs ! 0) AND 0x7f,
      cr_r2 = drop_bit 3 (bs ! 1), cr_ctrl_crc = (bs ! 1) AND 0x07\<rparr>"

text \<open>
  Modelled from the spec: the discriminator constants and the bit macros of
  \<^verbatim>\<open>rohc_bit_ops.h\<close> are missing from the sources. The specification gives the first
  octet of a ROHCv2 IR packet as \<^verbatim>\<open>1111 1101\<close> and of a co_repair packet as
  \<^verbatim>\<open>1111 1011\<close> (the comments at their uses in the parser say the same); a macro
  \<^verbatim>\<open>GET_BIT_m_n\<close> yields bits m to n of the first byte, shifted down to bit 0.
\<close>

definition ROHC_PACKET_TYPE_IR :: u8 where
  "ROHC_PACKET_TYPE_IR = 0xfd"

definition ROHC_PACKET_TYPE_CO_REPAIR :: u8 where
  "ROHC_PACKET_TYPE_CO_REPAIR = 0xfb"

definition GET_BIT_7 :: "u8 \<Rightarrow> u8" where
  "GET_BIT_7 b = drop_bit 7 (b AND 0x80)"

definition GET_BIT_4 :: "u8 \<Rightarrow> u8" where
  "GET_BIT_4 b = drop_bit 4 (b AND 0x10)"

definition GET_BIT_5_7 :: "u8 \<Rightarrow> u8" where
  "GET_BIT_5_7 b = drop_bit 5 (b AND 0xe0)"

definition GET_BIT_0_7 :: "u8 \<Rightarrow> u8" where
  "GET_BIT_0_7 b = b AND 0xff"

subsection \<open>Extracted bits, decoded values and contexts\<close>

datatype rohc_crc_type_t =
  ROHC_CRC_TYPE_NONE | ROHC_CRC_TYPE_3 | ROHC_CRC_TYPE_7 | ROHC_CRC_TYPE_8

datatype rohc_decomp_state_t =
  ROHC_DECOMP_STATE_NC | ROHC_DECOMP_STATE_SC | ROHC_DECOMP_STATE_FC

record rohc_decomp_crc =
  crc_type :: rohc_crc_type_t
  crc_bits :: u8
  crc_bits_nr :: nat

record rohc_lsb_field16 =
  lsb_bits :: u16
  lsb_bits_nr :: nat
  lsb_p :: int

record rohc_rfc5225_ip_bits =
  ipb_version :: ip_version
  ipb_tos_tc_bits :: u8
  ipb_tos_tc_bits_nr :: nat
  ipb_id_behavior :: "2 word"
  ipb_id_behavior_nr :: nat
  ipb_id :: rohc_lsb_field16
  ipb_df :: "1 word"
  ipb_df_nr :: nat
  ipb_ttl_hl :: u8
  ipb_ttl_hl_nr :: nat
  ipb_proto :: u8
  ipb_proto_nr :: nat
  ipb_flowid :: "20 word"
  ipb_flowid_nr :: nat
  ipb_saddr :: "u8 list"
  ipb_saddr_nr :: nat
  ipb_daddr :: "u8 list"
  ipb_daddr_nr :: nat

record rohc_rfc5225_bits =
  b_ip :: "rohc_rfc5225_ip_bits list"
  b_ip_nr :: nat
  b_msn :: rohc_lsb_field16
  b_reorder_ratio :: "2 word"
  b_reorder_ratio_nr :: nat
  b_outer_ip_flag :: u8
  b_outer_ip_flag_nr :: nat
  b_ctrl_crc :: rohc_decomp_crc
  b_udp_sport :: u16
  b_udp_sport_nr :: nat
  b_udp_dport :: u16
  b_udp_dport_nr :: nat
  b_udp_checksum :: u16
  b_udp_checksum_nr :: nat
  b_rtp_ssrc :: u16
  b_rtp_ssrc_nr :: nat

record rohc_rfc5225_decoded_ip =
  dec_version :: ip_version
  dec_tos_tc :: u8
  dec_id_behavior :: "2 word"
  dec_id :: u16
  dec_df :: "1 word"
  dec_ttl :: u8
  dec_proto :: u8
  dec_nbo :: "1 word"
  dec_rnd :: "1 word"
  dec_flowid :: "20 word"
  dec_saddr :: "u8 list"
  dec_daddr :: "u8 list"

record rohc_rfc5225_decoded =
  d_ip :: "rohc_rfc5225_decoded_ip list"
  d_ip_nr :: nat
  d_msn :: u16
  d_reorder_ratio :: "2 word"
  d_udp_sport :: u16
  d_udp_dport :: u16
  d_udp_checksum :: u16
  d_udp_checksum_used :: bool
  d_ssrc :: u16

text \<open>
  The context of one IP header (\<^verbatim>\<open>ip_context_t\<close>, declared outside the sources): the
  version, and the members \<^verbatim>\<open>vx\<close>, \<^verbatim>\<open>v4\<close> and \<^verbatim>\<open>v6\<close> of the union \<^verbatim>\<open>ctxt\<close>, of which
  the profile reads and writes the fields below. The fields of \<^verbatim>\<open>v4\<close> and \<^verbatim>\<open>v6\<close> are
  kept apart here; the profile writes and reads those of the header's own version.
\<close>

record ip_context_t =
  ipc_version :: ip_version
  vx_version :: ip_version
  vx_tos_tc :: u8
  vx_ttl_hopl :: u8
  vx_next_header :: u8
  vx_ip_id_behavior :: "2 word"
  v4_df :: "1 word"
  v4_ip_id :: u16
  v4_src_addr :: "u8 list"
  v4_dst_addr :: "u8 list"
  v6_flow_label :: "20 word"
  v6_src_addr :: "u8 list"
  v6_dest_addr :: "u8 list"

text \<open>
  The persistent part of the decompression context. The LSB decoding contexts are
  objects of the W-LSB module, which is not among the sources: their type is a
  parameter.
\<close>

record 'l rohc_decomp_rfc5225_ip_udp_rtp_ctxt =
  msn_lsb_ctxt :: 'l
  ip_id_offset_lsb_ctxt :: 'l
  reorder_ratio :: "2 word"
  ip_contexts_nr :: nat
  ip_contexts :: "ip_context_t list"
  pc_udp_sport :: u16
  pc_udp_dport :: u16
  pc_udp_checksum_used :: bool
  pc_rtp_ssrc :: u16

record 'l rohc_decomp_ctxt =
  dctxt_state :: rohc_decomp_state_t
  dctxt_mode :: rohc_mode_t
  num_recv_packets :: nat
  persist_ctxt :: "'l rohc_decomp_rfc5225_ip_udp_rtp_ctxt"

subsection \<open>Packet type detection\<close>

text \<open>
  \<^verbatim>\<open>decomp_rfc5225_ip_udp_rtp_detect_pkt_type\<close>; the assertion wants at least one byte.
\<close>

definition decomp_rfc5225_ip_udp_rtp_detect_pkt_type :: "u8 list \<Rightarrow> rohc_packet_v2_t or_abort" where
  "decomp_rfc5225_ip_udp_rtp_detect_pkt_type rohc_packet =
    (case rohc_packet of
       [] \<Rightarrow> Assertion_failed
     | b0 # _ \<Rightarrow>
         Returns
          (if GET_BIT_7 b0 = 0 then ROHC_PACKET_PT_0_CRC3
           else if GET_BIT_5_7 b0 = 0x04 then ROHC_PACKET_NORTP_PT_0_CRC7
           else if GET_BIT_5_7 b0 = 0x05 then ROHC_PACKET_NORTP_PT_1_SEQ_ID
           else if GET_BIT_5_7 b0 = 0x06 then ROHC_PACKET_NORTP_PT_2_SEQ_ID
           else if GET_BIT_0_7 b0 = 0xfa then ROHC_PACKET_CO_COMMON
           else if b0 = ROHC_PACKET_TYPE_CO_REPAIR then ROHC_PACKET_CO_REPAIR
           else if b0 = ROHC_PACKET_TYPE_IR then ROHC_PACKET_IR
           else ROHC_PACKET_UNKNOWN))"

subsection \<open>Parsing\<close>

text \<open>
  A loop \<^verbatim>\<open>for(i = 0; i < n; i++)\<close> that rewrites element \<^verbatim>\<open>i\<close> of an array from its
  former value.
\<close>

definition for_each_index :: "nat \<Rightarrow> (nat \<Rightarrow> 'a \<Rightarrow> 'a) \<Rightarrow> 'a list \<Rightarrow> 'a list" where
  "for_each_index n f xs = fold (\<lambda>i ys. ys[i := f i (ys ! i)]) [0..<n] xs"

text \<open>\<^verbatim>\<open>memcpy(dst, src, n)\<close> on arrays of bytes.\<close>

definition memcpy_bytes :: "u8 list \<Rightarrow> u8 list \<Rightarrow> nat \<Rightarrow> u8 list" where
  "memcpy_bytes dst src n = take n src @ drop n dst"

text \<open>
  \<^verbatim>\<open>decomp_rfc5225_ip_udp_rtp_reset_extr_bits\<close>. The UDP and RTP fields of the extracted
  bits are not reset. \<^verbatim>\<open>ROHC_LSB_SHIFT_VAR\<close> is defined outside the sources and is a
  parameter.
\<close>

definition reset_ip_bits :: "rohc_rfc5225_ip_bits \<Rightarrow> rohc_rfc5225_ip_bits" where
  "reset_ip_bits b =
     b\<lparr>ipb_version := IP_UNKNOWN, ipb_tos_tc_bits_nr := 0, ipb_id_behavior_nr := 0,
       ipb_id := (ipb_id b)\<lparr>lsb_bits_nr := 0\<rparr>, ipb_df_nr := 0, ipb_ttl_hl_nr := 0,
       ipb_proto_nr := 0, ipb_flowid_nr := 0, ipb_saddr_nr := 0, ipb_daddr_nr := 0\<rparr>"

definition init_ip_bits_from_context :: "ip_context_t \<Rightarrow> rohc_rfc5225_ip_bits \<Rightarrow> rohc_rfc5225_ip_bits" where
  "init_ip_bits_from_context c b =
     b\<lparr>ipb_version := ipc_version c, ipb_proto := vx_next_header c, ipb_proto_nr := 8\<rparr>"

definition decomp_rfc5225_ip_udp_rtp_reset_extr_bits ::
  "wire_layout \<Rightarrow> int \<Rightarrow> 'l rohc_decomp_ctxt \<Rightarrow> rohc_rfc5225_bits \<Rightarrow> rohc_rfc5225_bits" where
  "decomp_rfc5225_ip_udp_rtp_reset_extr_bits L ROHC_LSB_SHIFT_VAR ctxt bits =
    (let rfc5225_ctxt = persist_ctxt ctxt;
         bits1 = bits\<lparr>b_ip := for_each_index (ROHC_MAX_IP_HDRS L) (\<lambda>i. reset_ip_bits) (b_ip bits),
                      b_ip_nr := 0,
                      b_msn := (b_msn bits)\<lparr>lsb_bits_nr := 0\<rparr>,
                      b_reorder_ratio_nr := 0,
                      b_outer_ip_flag_nr := 0,
                      b_ctrl_crc := (b_ctrl_crc bits)\<lparr>crc_type := ROHC_CRC_TYPE_NONE,
                                                      crc_bits_nr := 0\<rparr>\<rparr>;
         bits2 = (if num_recv_packets ctxt \<ge> 1 then
                    bits1\<lparr>b_ip := for_each_index (ip_contexts_nr rfc5225_ctxt)
                                     (\<lambda>i. init_ip_bits_from_context (ip_contexts rfc5225_ctxt ! i))
                                     (b_ip bits1),
                          b_ip_nr := ip_contexts_nr rfc5225_ctxt\<rparr>
                  else bits1)
     in bits2\<lparr>b_msn := (b_msn bits2)\<lparr>lsb_p := ROHC_LSB_SHIFT_VAR\<rparr>\<rparr>)"

text \<open>
  \<^verbatim>\<open>decomp_rfc5225_ip_udp_rtp_parse_static_ip\<close>: the length of the static part, the bits
  of the IP header and whether the header is the innermost one. The assertion on the
  flow label cannot fail on a 20-bit field and is left out.
\<close>

definition decomp_rfc5225_ip_udp_rtp_parse_static_ip ::
  "wire_layout \<Rightarrow> u8 list \<Rightarrow> rohc_rfc5225_ip_bits
     \<Rightarrow> (nat \<times> rohc_rfc5225_ip_bits \<times> bool) result" where
  "decomp_rfc5225_ip_udp_rtp_parse_static_ip L rohc_pkt ip_bits =
    (case rohc_pkt of
       [] \<Rightarrow> Error_status
     | b0 # _ \<Rightarrow>
       if GET_BIT_7 b0 = 0 then
         (let ipv4_static = as_ipv4_static_t L (struct_bytes (sizeof_ipv4_static_t L) rohc_pkt);
              ip_bits1 = ip_bits\<lparr>ipb_version := IPV4\<rparr>
          in
          if length rohc_pkt < sizeof_ipv4_static_t L then Error_status
          else if s4_reserved ipv4_static \<noteq> 0 then Error_status
          else Success (sizeof_ipv4_static_t L,
                  ip_bits1\<lparr>ipb_proto := s4_protocol ipv4_static, ipb_proto_nr := 8,
                           ipb_saddr := memcpy_bytes (ipb_saddr ip_bits1) (s4_src_addr ipv4_static) 4,
                           ipb_saddr_nr := 32,
                           ipb_daddr := memcpy_bytes (ipb_daddr ip_bits1) (s4_dst_addr ipv4_static) 4,
                           ipb_daddr_nr := 32\<rparr>,
                  s4_innermost_ip ipv4_static = 1))
       else
         (let ip_bits1 = ip_bits\<lparr>ipb_version := IPV6\<rparr> in
          if GET_BIT_4 b0 = 0 then
            (let ipv6_static = as_ipv6_static_nofl_t L
                                 (struct_bytes (sizeof_ipv6_static_nofl_t L) rohc_pkt)
             in
             if length rohc_pkt < sizeof_ipv6_static_nofl_t L then Error_status
             else if s6n_reserved1 ipv6_static \<noteq> 0 then Error_status
             else if s6n_reserved2 ipv6_static \<noteq> 0 then Error_status
             else Success (sizeof_ipv6_static_nofl_t L,
                     ip_bits1\<lparr>ipb_flowid := 0, ipb_flowid_nr := 20,
                              ipb_proto := s6n_next_header ipv6_static, ipb_proto_nr := 8,
                              ipb_saddr := memcpy_bytes (ipb_saddr ip_bits1) (s6n_src_addr ipv6_static) 16,
                              ipb_saddr_nr := 128,
                              ipb_daddr := memcpy_bytes (ipb_daddr ip_bits1) (s6n_dst_addr ipv6_static) 16,
                              ipb_daddr_nr := 128\<rparr>,
                     s6n_innermost_ip ipv6_static = 1))
          else
            (let ipv6_static = as_ipv6_static_fl_t L
                                 (struct_bytes (sizeof_ipv6_static_fl_t L) rohc_pkt)
             in
             if length rohc_pkt < sizeof_ipv6_static_fl_t L then Error_status
             else if s6f_reserved ipv6_static \<noteq> 0 then Error_status
             else Success (sizeof_ipv6_static_fl_t L,
                     ip_bits1\<lparr>ipb_flowid := push_bit 16 (ucast (s6f_flow_label_msb ipv6_static))
                                              OR ucast (s6f_flow_label_lsb ipv6_static),
                              ipb_flowid_nr := 20,
                              ipb_proto := s6f_next_header ipv6_static, ipb_proto_nr := 8,
                              ipb_saddr := memcpy_bytes (ipb_saddr ip_bits1) (s6f_src_addr ipv6_static) 16,
                              ipb_saddr_nr := 128,
                              ipb_daddr := memcpy_bytes (ipb_daddr ip_bits1) (s6f_dst_addr ipv6_static) 16,
                              ipb_daddr_nr := 128\<rparr>,
                     s6f_innermost_ip ipv6_static = 1))))"

text \<open>\<^verbatim>\<open>decomp_rfc5225_ip_udp_rtp_parse_static_udp\<close>.\<close>

definition decomp_rfc5225_ip_udp_rtp_parse_static_udp ::
  "wire_layout \<Rightarrow> u8 list \<Rightarrow> rohc_rfc5225_bits \<Rightarrow> (nat \<times> rohc_rfc5225_bits) result" where
  "decomp_rfc5225_ip_udp_rtp_parse_static_udp L rohc_pkt bits =
    (let udp_static = as_udp_static_t L (struct_bytes (sizeof_udp_static_t L) rohc_pkt) in
     if length rohc_pkt < sizeof_udp_static_t L then Error_status
     else Success (sizeof_udp_static_t L,
             bits\<lparr>b_udp_sport := us_src_port udp_static, b_udp_sport_nr := 16,
                  b_udp_dport := us_dst_port udp_static, b_udp_dport_nr := 16\<rparr>))"

text \<open>
  The \<^verbatim>\<open>do ... while\<close> loop of \<^verbatim>\<open>decomp_rfc5225_ip_udp_rtp_parse_static_chain\<close> over the
  IP headers: the rest of the packet, the array of IP bits, the number of headers, the
  parsed length and the last \<^verbatim>\<open>is_innermost\<close>.
\<close>

function static_ip_loop ::
  "wire_layout \<Rightarrow> u8 list \<Rightarrow> rohc_rfc5225_ip_bits list \<Rightarrow> nat \<Rightarrow> nat
     \<Rightarrow> (u8 list \<times> rohc_rfc5225_ip_bits list \<times> nat \<times> nat \<times> bool) result" where
  "static_ip_loop L remain_data ips ip_hdrs_nr parsed_len =
    (case decomp_rfc5225_ip_udp_rtp_parse_static_ip L remain_data (ips ! ip_hdrs_nr) of
       Assert_abort \<Rightarrow> Assert_abort
     | Error_status \<Rightarrow> Error_status
     | Success (ret, ip_bits, is_innermost) \<Rightarrow>
         if length remain_data < ret then Assert_abort
         else if \<not> is_innermost \<and> ip_hdrs_nr + 1 < ROHC_MAX_IP_HDRS L then
           static_ip_loop L (drop ret remain_data) (ips[ip_hdrs_nr := ip_bits])
             (ip_hdrs_nr + 1) (parsed_len + ret)
         else Success (drop ret remain_data, ips[ip_hdrs_nr := ip_bits], ip_hdrs_nr + 1,
                       parsed_len + ret, is_innermost))"
  by pat_completeness auto
termination
  by (relation "measure (\<lambda>(L, remain_data, ips, ip_hdrs_nr, parsed_len).
                           ROHC_MAX_IP_HDRS L - ip_hdrs_nr)") auto

declare static_ip_loop.simps [simp del]

text \<open>\<^verbatim>\<open>decomp_rfc5225_ip_udp_rtp_parse_static_chain\<close>: the bits and the parsed length.\<close>

definition decomp_rfc5225_ip_udp_rtp_parse_static_chain ::
  "wire_layout \<Rightarrow> u8 list \<Rightarrow> rohc_rfc5225_bits \<Rightarrow> (rohc_rfc5225_bits \<times> nat) result" where
  "decomp_rfc5225_ip_udp_rtp_parse_static_chain L rohc_pkt bits =
    (case static_ip_loop L rohc_pkt (b_ip bits) 0 0 of
       Assert_abort \<Rightarrow> Assert_abort
     | Error_status \<Rightarrow> Error_status
     | Success (remain_data, ips, ip_hdrs_nr, parsed_len, is_innermost) \<Rightarrow>
         if \<not> is_innermost \<and> ip_hdrs_nr \<ge> ROHC_MAX_IP_HDRS L then Error_status
         else
           (case decomp_rfc5225_ip_udp_rtp_parse_static_udp L remain_data
                   (bits\<lparr>b_ip := ips, b_ip_nr := ip_hdrs_nr\<rparr>) of
              Assert_abort \<Rightarrow> Assert_abort
            | Error_status \<Rightarrow> Error_status
            | Success (ret, bits') \<Rightarrow>
                if length remain_data < ret then Assert_abort
                else Success (bits', parsed_len + ret)))"

text \<open>\<^verbatim>\<open>decomp_rfc5225_ip_udp_rtp_parse_dyn_ip\<close>.\<close>

definition decomp_rfc5225_ip_udp_rtp_parse_dyn_ip ::
  "wire_layout \<Rightarrow> u8 list \<Rightarrow> rohc_rfc5225_ip_bits \<Rightarrow> (nat \<times> rohc_rfc5225_ip_bits) result" where
  "decomp_rfc5225_ip_udp_rtp_parse_dyn_ip L rohc_pkt ip_bits =
    (if ipb_version ip_bits = IPV4 then
       (let ipv4_dynamic = as_ipv4_regular_dynamic_noipid_t L
                             (struct_bytes (sizeof_ipv4_regular_dynamic_noipid_t L) rohc_pkt)
        in
        if length rohc_pkt < sizeof_ipv4_regular_dynamic_noipid_t L then Error_status
        else if d4_reserved ipv4_dynamic \<noteq> 0 then Error_status
        else
          (let ip_bits1 = ip_bits\<lparr>ipb_df := d4_df ipv4_dynamic, ipb_df_nr := 1,
                                  ipb_id_behavior := d4_ip_id_behavior ipv4_dynamic,
                                  ipb_id_behavior_nr := 2,
                                  ipb_tos_tc_bits := d4_tos_tc ipv4_dynamic, ipb_tos_tc_bits_nr := 8,
                                  ipb_ttl_hl := d4_ttl_hopl ipv4_dynamic, ipb_ttl_hl_nr := 8\<rparr>
           in
           if d4_ip_id_behavior ipv4_dynamic \<noteq> ROHC_IP_ID_BEHAVIOR_ZERO L then
             (let ipv4_dynamic_ipid = as_ipv4_regular_dynamic_ipid_t L
                                        (struct_bytes (sizeof_ipv4_regular_dynamic_ipid_t L) rohc_pkt)
              in
              if length rohc_pkt < sizeof_ipv4_regular_dynamic_ipid_t L then Error_status
              else Success (sizeof_ipv4_regular_dynamic_ipid_t L,
                      ip_bits1\<lparr>ipb_id := (ipb_id ip_bits1)\<lparr>lsb_bits := d4i_ip_id ipv4_dynamic_ipid,
                                                            lsb_bits_nr := 16\<rparr>\<rparr>))
           else Success (sizeof_ipv4_regular_dynamic_noipid_t L, ip_bits1)))
     else
       (let ipv6_dynamic = as_ipv6_regular_dynamic_t L
                             (struct_bytes (sizeof_ipv6_regular_dynamic_t L) rohc_pkt)
        in
        if length rohc_pkt < sizeof_ipv6_regular_dynamic_t L then Error_status
        else Success (sizeof_ipv6_regular_dynamic_t L,
                ip_bits\<lparr>ipb_tos_tc_bits := d6_tos_tc ipv6_dynamic, ipb_tos_tc_bits_nr := 8,
                        ipb_ttl_hl := d6_ttl_hopl ipv6_dynamic, ipb_ttl_hl_nr := 8,
                        ipb_id_behavior := ROHC_IP_ID_BEHAVIOR_RAND L,
                        ipb_id_behavior_nr := 2\<rparr>)))"

text \<open>\<^verbatim>\<open>decomp_rfc5225_ip_udp_rtp_parse_dyn_udp\<close>.\<close>

definition decomp_rfc5225_ip_udp_rtp_parse_dyn_udp ::
  "wire_layout \<Rightarrow> u8 list \<Rightarrow> rohc_rfc5225_bits \<Rightarrow> (nat \<times> rohc_rfc5225_bits) result" where
  "decomp_rfc5225_ip_udp_rtp_parse_dyn_udp L rohc_pkt bits =
    (let udp_dynamic = as_udp_endpoint_dynamic_t L
                         (struct_bytes (sizeof_udp_endpoint_dynamic_t L) rohc_pkt)
     in
     if length rohc_pkt < sizeof_udp_endpoint_dynamic_t L then Error_status
     else Success (sizeof_udp_endpoint_dynamic_t L,
             bits\<lparr>b_udp_checksum := ud_checksum udp_dynamic, b_udp_checksum_nr := 16,
                  b_msn := (b_msn bits)\<lparr>lsb_bits := ud_msn udp_dynamic, lsb_bits_nr := 16\<rparr>,
                  b_reorder_ratio := ud_reorder_ratio udp_dynamic,
                  b_reorder_ratio_nr := 2\<rparr>))"

text \<open>
  The \<^verbatim>\<open>for\<close> loop of \<^verbatim>\<open>decomp_rfc5225_ip_udp_rtp_parse_dyn_chain\<close> over the IP headers,
  from header \<^verbatim>\<open>ip_hdrs_nr\<close> on.
\<close>

function dyn_ip_loop ::
  "wire_layout \<Rightarrow> u8 list \<Rightarrow> rohc_rfc5225_ip_bits list \<Rightarrow> nat \<Rightarrow> nat \<Rightarrow> nat
     \<Rightarrow> (u8 list \<times> rohc_rfc5225_ip_bits list \<times> nat) result" where
  "dyn_ip_loop L remain_data ips ip_hdrs_nr ip_nr parsed_len =
    (if ip_hdrs_nr < ip_nr then
       (case decomp_rfc5225_ip_udp_rtp_parse_dyn_ip L remain_data (ips ! ip_hdrs_nr) of
          Assert_abort \<Rightarrow> Assert_abort
        | Error_status \<Rightarrow> Error_status
        | Success (ret, ip_bits) \<Rightarrow>
            if length remain_data < ret then Assert_abort
            else dyn_ip_loop L (drop ret remain_data) (ips[ip_hdrs_nr := ip_bits])
                   (ip_hdrs_nr + 1) ip_nr (parsed_len + ret))
     else Success (remain_data, ips, parsed_len))"
  by pat_completeness auto
termination
  by (relation "measure (\<lambda>(L, remain_data, ips, ip_hdrs_nr, ip_nr, parsed_len).
                           ip_nr - ip_hdrs_nr)") auto

declare dyn_ip_loop.simps [simp del]

text \<open>\<^verbatim>\<open>decomp_rfc5225_ip_udp_rtp_parse_dyn_chain\<close>.\<close>

definition decomp_rfc5225_ip_udp_rtp_parse_dyn_chain ::
  "wire_layout \<Rightarrow> u8 list \<Rightarrow> rohc_rfc5225_bits \<Rightarrow> (rohc_rfc5225_bits \<times> nat) result" where
  "decomp_rfc5225_ip_udp_rtp_parse_dyn_chain L rohc_pkt bits =
    (if \<not> b_ip_nr bits > 0 then Assert_abort
     else
       (case dyn_ip_loop L rohc_pkt (b_ip bits) 0 (b_ip_nr bits) 0 of
          Assert_abort \<Rightarrow> Assert_abort
        | Error_status \<Rightarrow> Error_status
        | Success (remain_data, ips, parsed_len) \<Rightarrow>
            (case decomp_rfc5225_ip_udp_rtp_parse_dyn_udp L remain_data (bits\<lparr>b_ip := ips\<rparr>) of
               Assert_abort \<Rightarrow> Assert_abort
             | Error_status \<Rightarrow> Error_status
             | Success (ret, bits') \<Rightarrow>
                 if length remain_data < ret then Assert_abort
                 else Success (bits', parsed_len + ret))))"

text \<open>
  \<^verbatim>\<open>decomp_rfc5225_ip_udp_rtp_parse_ir\<close>: the extracted CRC, the bits and the length of
  the ROHC header.
\<close>

definition decomp_rfc5225_ip_udp_rtp_parse_ir ::
  "wire_layout \<Rightarrow> u8 list \<Rightarrow> nat \<Rightarrow> rohc_rfc5225_bits
     \<Rightarrow> (rohc_decomp_crc \<times> rohc_rfc5225_bits \<times> nat) result" where
  "decomp_rfc5225_ip_udp_rtp_parse_ir L rohc_pkt large_cid_len bits =
    (if \<not> length rohc_pkt \<ge> 1 + large_cid_len + 1 then Assert_abort
     else
       (let remain_data = drop (1 + large_cid_len + 1) rohc_pkt in
        case remain_data of
          [] \<Rightarrow> Error_status
        | crc_byte # remain_data1 \<Rightarrow>
            (let extr_crc = \<lparr>crc_type = ROHC_CRC_TYPE_NONE, crc_bits = crc_byte, crc_bits_nr = 8\<rparr>
             in
             case decomp_rfc5225_ip_udp_rtp_parse_static_chain L remain_data1 bits of
               Assert_abort \<Rightarrow> Assert_abort
             | Error_status \<Rightarrow> Error_status
             | Success (bits1, static_chain_len) \<Rightarrow>
                 (case decomp_rfc5225_ip_udp_rtp_parse_dyn_chain L
                         (drop static_chain_len remain_data1) bits1 of
                    Assert_abort \<Rightarrow> Assert_abort
                  | Error_status \<Rightarrow> Error_status
                  | Success (bits2, dyn_chain_len) \<Rightarrow>
                      Success (extr_crc, bits2,
                               1 + large_cid_len + 1 + 1 + static_chain_len + dyn_chain_len)))))"

text \<open>\<^verbatim>\<open>decomp_rfc5225_ip_udp_rtp_parse_co_repair\<close>.\<close>

definition decomp_rfc5225_ip_udp_rtp_parse_co_repair ::
  "wire_layout \<Rightarrow> 'l rohc_decomp_ctxt \<Rightarrow> u8 list \<Rightarrow> nat \<Rightarrow> rohc_rfc5225_bits
     \<Rightarrow> (rohc_decomp_crc \<times> rohc_rfc5225_bits \<times> nat) result" where
  "decomp_rfc5225_ip_udp_rtp_parse_co_repair L ctxt rohc_pkt large_cid_len bits =
    (if \<not> (dctxt_state ctxt = ROHC_DECOMP_STATE_SC \<or> dctxt_state ctxt = ROHC_DECOMP_STATE_FC)
       then Assert_abort
     else if length rohc_pkt < 1 + large_cid_len + 2 then Error_status
     else if \<not> rohc_pkt ! 0 = ROHC_PACKET_TYPE_CO_REPAIR then Assert_abort
     else
       (let remain_data = drop (1 + large_cid_len) rohc_pkt;
            co_repair_crc = as_co_repair_crc_t (struct_bytes sizeof_co_repair_crc_t remain_data)
        in
        if cr_r1 co_repair_crc \<noteq> 0 then Error_status
        else
          (let hdr_crc = \<lparr>crc_type = ROHC_CRC_TYPE_7, crc_bits = cr_header_crc co_repair_crc,
                          crc_bits_nr = 7\<rparr>
           in
           if cr_r2 co_repair_crc \<noteq> 0 then Error_status
           else
             (let bits1 = bits\<lparr>b_ctrl_crc := \<lparr>crc_type = ROHC_CRC_TYPE_3,
                                               crc_bits = cr_ctrl_crc co_repair_crc,
                                               crc_bits_nr = 3\<rparr>\<rparr>
              in
              case decomp_rfc5225_ip_udp_rtp_parse_dyn_chain L
                     (drop sizeof_co_repair_crc_t remain_data) bits1 of
                Assert_abort \<Rightarrow> Assert_abort
              | Error_status \<Rightarrow> Error_status
              | Success (bits2, dyn_chain_len) \<Rightarrow>
                  Success (hdr_crc, bits2,
                           1 + large_cid_len + sizeof_co_repair_crc_t + dyn_chain_len)))))"

text \<open>
  \<^verbatim>\<open>decomp_rfc5225_ip_udp_rtp_parse_pkt\<close>. The parser takes the context as
  \<^verbatim>\<open>const\<close>: it returns bits and no context.
\<close>

definition decomp_rfc5225_ip_udp_rtp_parse_pkt ::
  "wire_layout \<Rightarrow> int \<Rightarrow> 'l rohc_decomp_ctxt \<Rightarrow> u8 list \<Rightarrow> nat \<Rightarrow> rohc_packet_v2_t
     \<Rightarrow> rohc_rfc5225_bits \<Rightarrow> (rohc_decomp_crc \<times> rohc_rfc5225_bits \<times> nat) result" where
  "decomp_rfc5225_ip_udp_rtp_parse_pkt L ROHC_LSB_SHIFT_VAR context rohc_packet large_cid_len
       packet_type bits =
    (let bits0 = decomp_rfc5225_ip_udp_rtp_reset_extr_bits L ROHC_LSB_SHIFT_VAR context bits in
     if packet_type = ROHC_PACKET_IR then
       decomp_rfc5225_ip_udp_rtp_parse_ir L rohc_packet large_cid_len bits0
     else if packet_type = ROHC_PACKET_CO_REPAIR then
       decomp_rfc5225_ip_udp_rtp_parse_co_repair L context rohc_packet large_cid_len bits0
     else Error_status)"

subsection \<open>Decoding\<close>

text \<open>
  The functions of the W-LSB, IP-ID and CRC modules that the decoder calls, and the
  compile-time switch \<^verbatim>\<open>ROHC_RFC_STRICT_DECOMPRESSOR\<close>; none is defined in the sources.
  \<^verbatim>\<open>rohc_lsb_decode\<close> and \<^verbatim>\<open>d_ip_id_lsb\<close> yield the decoded value when they succeed;
  \<^verbatim>\<open>compute_crc_ctrl_fields\<close> is applied to the reorder ratio, the MSN and the list of
  IP-ID behaviors (the profile and the CRC table are those of the decompressor).
\<close>

record 'l decomp_helpers =
  ROHC_LSB_SHIFT_VAR :: int
  rohc_interval_get_rfc5225_msn_p :: "nat \<Rightarrow> 2 word \<Rightarrow> int"
  rohc_lsb_decode :: "'l \<Rightarrow> u32 \<Rightarrow> nat \<Rightarrow> int \<Rightarrow> u32 option"
  d_ip_id_lsb :: "'l \<Rightarrow> u16 \<Rightarrow> u16 \<Rightarrow> nat \<Rightarrow> int \<Rightarrow> u16 option"
  rohc_lsb_get_ref :: "'l \<Rightarrow> u32"
  rohc_lsb_set_ref :: "'l \<Rightarrow> u32 \<Rightarrow> 'l"
  compute_crc_ctrl_fields :: "2 word \<Rightarrow> u16 \<Rightarrow> u8 list \<Rightarrow> u8"
  ROHC_RFC_STRICT_DECOMPRESSOR :: bool

definition swab16 :: "u16 \<Rightarrow> u16" where
  "swab16 x = push_bit 8 x OR drop_bit 8 x"

text \<open>The IP-ID step of \<^verbatim>\<open>decomp_rfc5225_ip_udp_rtp_decode_bits_ip_hdr\<close>.\<close>

definition decode_ip_id ::
  "wire_layout \<Rightarrow> 'l decomp_helpers \<Rightarrow> 'l rohc_decomp_rfc5225_ip_udp_rtp_ctxt
     \<Rightarrow> rohc_rfc5225_ip_bits \<Rightarrow> ip_context_t \<Rightarrow> u16 \<Rightarrow> 2 word
     \<Rightarrow> rohc_rfc5225_decoded_ip \<Rightarrow> rohc_rfc5225_decoded_ip result" where
  "decode_ip_id L H rfc5225_ctxt ip_bits ip_ctxt decoded_msn ip_id_behavior ip_decoded =
    (if ipb_version ip_bits = IPV4 then
       (if lsb_bits_nr (ipb_id ip_bits) = 16 then
          Success (ip_decoded\<lparr>dec_id := lsb_bits (ipb_id ip_bits)\<rparr>)
        else if lsb_bits_nr (ipb_id ip_bits) > 0 then
          (if ip_id_behavior > ROHC_IP_ID_BEHAVIOR_SEQ_SWAP L then Error_status
           else
             (case d_ip_id_lsb H (ip_id_offset_lsb_ctxt rfc5225_ctxt) decoded_msn
                     (lsb_bits (ipb_id ip_bits)) (lsb_bits_nr (ipb_id ip_bits))
                     (lsb_p (ipb_id ip_bits)) of
                None \<Rightarrow> Error_status
              | Some ip_id \<Rightarrow>
                  Success (ip_decoded\<lparr>dec_id :=
                    (if ip_id_behavior = ROHC_IP_ID_BEHAVIOR_SEQ_SWAP L
                     then swab16 ip_id else ip_id)\<rparr>)))
        else
          (if ip_id_behavior = ROHC_IP_ID_BEHAVIOR_ZERO L then
             Success (ip_decoded\<lparr>dec_id := 0\<rparr>)
           else if ip_id_behavior = ROHC_IP_ID_BEHAVIOR_SEQ L \<or>
                   ip_id_behavior = ROHC_IP_ID_BEHAVIOR_SEQ_SWAP L then
             (let last_msn = (ucast (rohc_lsb_get_ref H (msn_lsb_ctxt rfc5225_ctxt)) :: u16);
                  msn_delta = decoded_msn - last_msn
              in
              if ip_id_behavior = ROHC_IP_ID_BEHAVIOR_SEQ L then
                Success (ip_decoded\<lparr>dec_id := v4_ip_id ip_ctxt + msn_delta\<rparr>)
              else
                Success (ip_decoded\<lparr>dec_id := swab16 (swab16 (v4_ip_id ip_ctxt) + msn_delta)\<rparr>))
           else Error_status))
     else if lsb_bits_nr (ipb_id ip_bits) > 0 then Error_status
     else Success ip_decoded)"

text \<open>\<^verbatim>\<open>decomp_rfc5225_ip_udp_rtp_decode_bits_ip_hdr\<close>.\<close>

definition decomp_rfc5225_ip_udp_rtp_decode_bits_ip_hdr ::
  "wire_layout \<Rightarrow> 'l decomp_helpers \<Rightarrow> 'l rohc_decomp_rfc5225_ip_udp_rtp_ctxt
     \<Rightarrow> rohc_rfc5225_ip_bits \<Rightarrow> ip_context_t \<Rightarrow> u16
     \<Rightarrow> rohc_rfc5225_decoded_ip \<Rightarrow> rohc_rfc5225_decoded_ip result" where
  "decomp_rfc5225_ip_udp_rtp_decode_bits_ip_hdr L H rfc5225_ctxt ip_bits ip_ctxt decoded_msn ip_decoded =
    (let \<comment> \<open>version\<close>
         d1 = ip_decoded\<lparr>dec_version := ipb_version ip_bits\<rparr>
     in
     \<comment> \<open>TOS/TC\<close>
     if ipb_tos_tc_bits_nr ip_bits > 0 \<and> ipb_tos_tc_bits_nr ip_bits \<noteq> 8 then Assert_abort
     else
     (let d2 = d1\<lparr>dec_tos_tc := (if ipb_tos_tc_bits_nr ip_bits > 0
                                  then ipb_tos_tc_bits ip_bits else vx_tos_tc ip_ctxt)\<rparr>
      in
      \<comment> \<open>IP-ID behavior\<close>
      if ipb_id_behavior_nr ip_bits > 0 \<and> ipb_id_behavior_nr ip_bits \<noteq> 2 then Assert_abort
      else
      (let ip_id_behavior = (if ipb_id_behavior_nr ip_bits > 0
                             then ipb_id_behavior ip_bits else vx_ip_id_behavior ip_ctxt);
           d3 = d2\<lparr>dec_id_behavior := ip_id_behavior\<rparr>
       in
       \<comment> \<open>IP-ID\<close>
       case decode_ip_id L H rfc5225_ctxt ip_bits ip_ctxt decoded_msn ip_id_behavior d3 of
         Assert_abort \<Rightarrow> Assert_abort
       | Error_status \<Rightarrow> Error_status
       | Success d4 \<Rightarrow>
       \<comment> \<open>TTL/HL\<close>
       if ipb_ttl_hl_nr ip_bits \<noteq> 8 \<and> ipb_ttl_hl_nr ip_bits \<noteq> 0 then Assert_abort
       else
       (let d5 = d4\<lparr>dec_ttl := (if ipb_ttl_hl_nr ip_bits = 8
                                 then ipb_ttl_hl ip_bits else vx_ttl_hopl ip_ctxt)\<rparr>
        in
        \<comment> \<open>DF\<close>
        if dec_version d5 = IPV4 \<and> ipb_df_nr ip_bits > 0 \<and> ipb_df_nr ip_bits \<noteq> 1 then Assert_abort
        else if dec_version d5 \<noteq> IPV4 \<and> ipb_df_nr ip_bits > 0 \<and> ipb_df ip_bits \<noteq> 0 \<and>
                ROHC_RFC_STRICT_DECOMPRESSOR H then Error_status
        else
        (let d6 = (if dec_version d5 = IPV4
                   then d5\<lparr>dec_df := (if ipb_df_nr ip_bits > 0
                                        then ipb_df ip_bits else v4_df ip_ctxt)\<rparr>
                   else d5)
         in
         \<comment> \<open>protocol / next header\<close>
         if ipb_proto_nr ip_bits > 0 \<and> ipb_proto_nr ip_bits \<noteq> 8 then Assert_abort
         else
         (let d7 = d6\<lparr>dec_proto := (if ipb_proto_nr ip_bits > 0
                                     then ipb_proto ip_bits else vx_next_header ip_ctxt)\<rparr>
          in
          \<comment> \<open>flow ID\<close>
          if dec_version d7 = IPV6 \<and> ipb_flowid_nr ip_bits > 0 \<and> ipb_flowid_nr ip_bits \<noteq> 20
            then Assert_abort
          else if dec_version d7 \<noteq> IPV6 \<and> ipb_flowid_nr ip_bits \<noteq> 0 then Assert_abort
          else
          (let d8 = (if dec_version d7 = IPV6
                     then d7\<lparr>dec_flowid := (if ipb_flowid_nr ip_bits > 0
                                              then ipb_flowid ip_bits else v6_flow_label ip_ctxt)\<rparr>
                     else d7);
               \<comment> \<open>source address\<close>
               d9 = d8\<lparr>dec_saddr :=
                      (if ipb_saddr_nr ip_bits > 0
                       then memcpy_bytes (dec_saddr d8) (ipb_saddr ip_bits) (ipb_saddr_nr ip_bits div 8)
                       else if dec_version d8 = IPV4
                       then memcpy_bytes (dec_saddr d8) (v4_src_addr ip_ctxt) 4
                       else memcpy_bytes (dec_saddr d8) (v6_src_addr ip_ctxt) 16)\<rparr>;
               \<comment> \<open>destination address\<close>
               d10 = d9\<lparr>dec_daddr :=
                      (if ipb_daddr_nr ip_bits > 0
                       then memcpy_bytes (dec_daddr d9) (ipb_daddr ip_bits) (ipb_daddr_nr ip_bits div 8)
                       else if dec_version d9 = IPV4
                       then memcpy_bytes (dec_daddr d9) (v4_dst_addr ip_ctxt) 4
                       else memcpy_bytes (dec_daddr d9) (v6_dest_addr ip_ctxt) 16)\<rparr>
           in Success d10)))))))"

text \<open>
  The loop of \<^verbatim>\<open>decomp_rfc5225_ip_udp_rtp_decode_bits_ip_hdrs\<close> over the IP headers,
  from header \<^verbatim>\<open>ip_hdr_nr\<close> on: the array of decoded IP values.
\<close>

function decode_ip_hdr_loop ::
  "wire_layout \<Rightarrow> 'l decomp_helpers \<Rightarrow> 'l rohc_decomp_rfc5225_ip_udp_rtp_ctxt
     \<Rightarrow> rohc_rfc5225_bits \<Rightarrow> u16 \<Rightarrow> rohc_rfc5225_decoded_ip list \<Rightarrow> nat
     \<Rightarrow> rohc_rfc5225_decoded_ip list result" where
  "decode_ip_hdr_loop L H rfc5225_ctxt bits decoded_msn dips ip_hdr_nr =
    (if ip_hdr_nr < b_ip_nr bits then
       (case decomp_rfc5225_ip_udp_rtp_decode_bits_ip_hdr L H rfc5225_ctxt (b_ip bits ! ip_hdr_nr)
               (ip_contexts rfc5225_ctxt ! ip_hdr_nr) decoded_msn (dips ! ip_hdr_nr) of
          Assert_abort \<Rightarrow> Assert_abort
        | Error_status \<Rightarrow> Error_status
        | Success ip_decoded \<Rightarrow>
            decode_ip_hdr_loop L H rfc5225_ctxt bits decoded_msn (dips[ip_hdr_nr := ip_decoded])
              (ip_hdr_nr + 1))
     else Success dips)"
  by pat_completeness auto
termination
  by (relation "measure (\<lambda>(L, H, rfc5225_ctxt, bits, decoded_msn, dips, ip_hdr_nr).
                           b_ip_nr bits - ip_hdr_nr)") auto

declare decode_ip_hdr_loop.simps [simp del]

definition decomp_rfc5225_ip_udp_rtp_decode_bits_ip_hdrs ::
  "wire_layout \<Rightarrow> 'l decomp_helpers \<Rightarrow> 'l rohc_decomp_rfc5225_ip_udp_rtp_ctxt
     \<Rightarrow> rohc_rfc5225_bits \<Rightarrow> rohc_rfc5225_decoded \<Rightarrow> rohc_rfc5225_decoded result" where
  "decomp_rfc5225_ip_udp_rtp_decode_bits_ip_hdrs L H rfc5225_ctxt bits decoded =
    (if \<not> b_ip_nr bits > 0 then Assert_abort
     else
       (case decode_ip_hdr_loop L H rfc5225_ctxt bits (d_msn decoded) (d_ip decoded) 0 of
          Assert_abort \<Rightarrow> Assert_abort
        | Error_status \<Rightarrow> Error_status
        | Success dips \<Rightarrow> Success (decoded\<lparr>d_ip := dips, d_ip_nr := b_ip_nr bits\<rparr>)))"

text \<open>
  The loop of \<^verbatim>\<open>decomp_rfc5225_ip_udp_rtp_decode_bits\<close> that fills the array
  \<^verbatim>\<open>ip_id_behaviors\<close> for the control CRC: the headers are taken in order, and a header
  contributes the IP-ID behavior bits of the packet when the context holds it as IPv4.
\<close>

definition collect_ip_id_behaviors ::
  "'l rohc_decomp_rfc5225_ip_udp_rtp_ctxt \<Rightarrow> rohc_rfc5225_bits \<Rightarrow> u8 list" where
  "collect_ip_id_behaviors rfc5225_ctxt bits =
     fold (\<lambda>ip_hdr_pos ip_id_behaviors.
             if vx_version (ip_contexts rfc5225_ctxt ! ip_hdr_pos) = IPV4
             then ip_id_behaviors @ [ucast (ipb_id_behavior (b_ip bits ! ip_hdr_pos))]
             else ip_id_behaviors)
          [0..<b_ip_nr bits] []"

text \<open>The MSN step of \<^verbatim>\<open>decomp_rfc5225_ip_udp_rtp_decode_bits\<close>.\<close>

definition decode_msn ::
  "'l decomp_helpers \<Rightarrow> 'l rohc_decomp_rfc5225_ip_udp_rtp_ctxt \<Rightarrow> rohc_rfc5225_bits
     \<Rightarrow> u16 result" where
  "decode_msn H rfc5225_ctxt bits =
    (if lsb_bits_nr (b_msn bits) = 16 then Success (lsb_bits (b_msn bits))
     else
       (let p_computed = rohc_interval_get_rfc5225_msn_p H (lsb_bits_nr (b_msn bits))
                           (b_reorder_ratio bits)
        in
        if \<not> lsb_bits_nr (b_msn bits) > 0 then Assert_abort
        else
          (case rohc_lsb_decode H (msn_lsb_ctxt rfc5225_ctxt) (ucast (lsb_bits (b_msn bits)))
                  (lsb_bits_nr (b_msn bits)) p_computed of
             None \<Rightarrow> Error_status
           | Some msn_decoded32 \<Rightarrow> Success (ucast (msn_decoded32 AND 0xffff)))))"

text \<open>
  \<^verbatim>\<open>decomp_rfc5225_ip_udp_rtp_decode_bits\<close>: the decoded values when decoding succeeds.
  The context is \<^verbatim>\<open>const\<close>; the decoded values are written to a structure of the
  volatile part of the context, whose former content is \<^verbatim>\<open>decoded\<close>.
\<close>

definition decomp_rfc5225_ip_udp_rtp_decode_bits ::
  "wire_layout \<Rightarrow> 'l decomp_helpers \<Rightarrow> 'l rohc_decomp_ctxt \<Rightarrow> rohc_rfc5225_bits
     \<Rightarrow> rohc_rfc5225_decoded \<Rightarrow> rohc_rfc5225_decoded result" where
  "decomp_rfc5225_ip_udp_rtp_decode_bits L H ctxt bits decoded =
    (let rfc5225_ctxt = persist_ctxt ctxt in
     \<comment> \<open>decode MSN\<close>
     case decode_msn H rfc5225_ctxt bits of
       Assert_abort \<Rightarrow> Assert_abort
     | Error_status \<Rightarrow> Error_status
     | Success msn \<Rightarrow>
     (let d1 = decoded\<lparr>d_msn := msn\<rparr>;
          \<comment> \<open>decode UDP source and destination ports\<close>
          d2 = d1\<lparr>d_udp_sport := (if b_udp_sport_nr bits = 16 then b_udp_sport bits
                                   else pc_udp_sport rfc5225_ctxt)\<rparr>;
          d3 = d2\<lparr>d_udp_dport := (if b_udp_dport_nr bits = 16 then b_udp_dport bits
                                   else pc_udp_dport rfc5225_ctxt)\<rparr>
      in
      \<comment> \<open>decode UDP checksum\<close>
      if b_udp_checksum_nr bits \<noteq> 16 \<and>
         (b_udp_checksum_nr bits \<noteq> 0 \<or> pc_udp_checksum_used rfc5225_ctxt) then Assert_abort
      else
      (let d4 = (if b_udp_checksum_nr bits = 16
                 then d3\<lparr>d_udp_checksum := b_udp_checksum bits,
                         d_udp_checksum_used := (b_udp_checksum bits \<noteq> 0)\<rparr>
                 else d3\<lparr>d_udp_checksum := 0,
                         d_udp_checksum_used := pc_udp_checksum_used rfc5225_ctxt\<rparr>)
       in
       \<comment> \<open>decode reorder ratio\<close>
       if b_reorder_ratio_nr bits > 0 \<and> b_reorder_ratio_nr bits \<noteq> 2 then Assert_abort
       else
       (let d5 = d4\<lparr>d_reorder_ratio := (if b_reorder_ratio_nr bits > 0 then b_reorder_ratio bits
                                          else reorder_ratio rfc5225_ctxt)\<rparr>
        in
        \<comment> \<open>decode IP headers\<close>
        case decomp_rfc5225_ip_udp_rtp_decode_bits_ip_hdrs L H rfc5225_ctxt bits d5 of
          Assert_abort \<Rightarrow> Assert_abort
        | Error_status \<Rightarrow> Error_status
        | Success d6 \<Rightarrow>
            \<comment> \<open>check the CRC-3 computed over the control fields\<close>
            if crc_type (b_ctrl_crc bits) \<noteq> ROHC_CRC_TYPE_NONE then
              (if crc_type (b_ctrl_crc bits) \<noteq> ROHC_CRC_TYPE_3 then Assert_abort
               else if crc_bits_nr (b_ctrl_crc bits) \<noteq> 3 then Assert_abort
               else if \<not> b_ip_nr bits > 0 then Assert_abort
               else
                 (let ip_id_behaviors = collect_ip_id_behaviors rfc5225_ctxt bits;
                      ctrl_crc_computed = compute_crc_ctrl_fields H (d_reorder_ratio d6) (d_msn d6)
                                            ip_id_behaviors
                  in
                  if ctrl_crc_computed \<noteq> crc_bits (b_ctrl_crc bits) then Error_status
                  else Success d6))
            else Success d6))))"

subsection \<open>Updating the context\<close>



subsection \<open>The top-level decompression of one packet\<close>

datatype rohc_status_t =
    ROHC_STATUS_OK
  | ROHC_STATUS_MALFORMED
  | ROHC_STATUS_BAD_CRC
  | ROHC_STATUS_OUTPUT_TOO_SMALL
  | ROHC_STATUS_ERROR


subsection \<open>Malformed packets, as the specification names them\<close>
















subsection \<open>The bits of an IP header once the dynamic chain is parsed\<close>

text \<open>
  The numbers of bits that \<^verbatim>\<open>decomp_rfc5225_ip_udp_rtp_parse_dyn_ip\<close> leaves for one IP
  header of a co_repair packet: 8 bits of TOS/TC, TTL/HL and protocol, 2 bits of IP-ID
  behavior, no flow label; one DF bit and, unless the behavior is zero, 16 bits of IP-ID
  for IPv4, neither of them for another version.
\<close>

definition ip_bits_after_dyn_chain :: "wire_layout \<Rightarrow> rohc_rfc5225_ip_bits \<Rightarrow> bool" where
  "ip_bits_after_dyn_chain L ip_bits =
     (ipb_tos_tc_bits_nr ip_bits = 8 \<and> ipb_id_behavior_nr ip_bits = 2 \<and>
      ipb_ttl_hl_nr ip_bits = 8 \<and> ipb_proto_nr ip_bits = 8 \<and> ipb_flowid_nr ip_bits = 0 \<and>
      (if ipb_version ip_bits = IPV4 then
         ipb_df_nr ip_bits = 1 \<and>
         lsb_bits_nr (ipb_id ip_bits) =
           (if ipb_id_behavior ip_bits \<noteq> ROHC_IP_ID_BEHAVIOR_ZERO L then 16 else 0)
       else ipb_df_nr ip_bits = 0 \<and> lsb_bits_nr (ipb_id ip_bits) = 0))"

subsection \<open>Example values\<close>

definition be16 :: "u8 \<Rightarrow> u8 \<Rightarrow> u16" where
  "be16 hi lo = push_bit 8 (ucast hi) OR ucast lo"

text \<open>
  Modelled from the spec: the wire structures are missing from the sources; this layout
  serves the examples. The IPv4 static part (version (4), innermost (1), reserved (3),
  protocol, addresses), the IPv4 dynamic part (reserved (5), DF (1), IP-ID behavior (2),
  TOS, TTL and the IP-ID unless the behavior is zero) and the UDP static part (two ports)
  are those of the specification. For the others the specification refers to RFC 5225:
  the IPv6 static part starts with the version flag (1), innermost (1), reserved (1), the
  flow label flag (1) and either 4 reserved bits or the 4 upper bits of the flow label;
  the IPv6 dynamic part is TC and HL; the UDP dynamic part is the checksum, the MSN and a
  byte that ends with the reorder ratio. At most two IP headers; the IP-ID behaviors are
  numbered sequential 0, swapped 1, random 2, zero 3.
\<close>

definition example_layout :: wire_layout where
  "example_layout =
    \<lparr>ROHC_MAX_IP_HDRS = 2,
     ROHC_IP_ID_BEHAVIOR_SEQ = 0,
     ROHC_IP_ID_BEHAVIOR_SEQ_SWAP = 1,
     ROHC_IP_ID_BEHAVIOR_RAND = 2,
     ROHC_IP_ID_BEHAVIOR_ZERO = 3,
     sizeof_ipv4_static_t = 10,
     as_ipv4_static_t = (\<lambda>bs.
       \<lparr>s4_innermost_ip = ucast (drop_bit 3 (bs ! 0)),
        s4_reserved = (bs ! 0) AND 0x07,
        s4_protocol = bs ! 1,
        s4_src_addr = take 4 (drop 2 bs),
        s4_dst_addr = take 4 (drop 6 bs)\<rparr>),
     sizeof_ipv6_static_nofl_t = 34,
     as_ipv6_static_nofl_t = (\<lambda>bs.
       \<lparr>s6n_innermost_ip = ucast (drop_bit 6 (bs ! 0)),
        s6n_reserved1 = drop_bit 5 (bs ! 0) AND 0x01,
        s6n_reserved2 = (bs ! 0) AND 0x0f,
        s6n_next_header = bs ! 1,
        s6n_src_addr = take 16 (drop 2 bs),
        s6n_dst_addr = take 16 (drop 18 bs)\<rparr>),
     sizeof_ipv6_static_fl_t = 36,
     as_ipv6_static_fl_t = (\<lambda>bs.
       \<lparr>s6f_innermost_ip = ucast (drop_bit 6 (bs ! 0)),
        s6f_reserved = drop_bit 5 (bs ! 0) AND 0x01,
        s6f_flow_label_msb = ucast (bs ! 0),
        s6f_flow_label_lsb = be16 (bs ! 1) (bs ! 2),
        s6f_next_header = bs ! 3,
        s6f_src_addr = take 16 (drop 4 bs),
        s6f_dst_addr = take 16 (drop 20 bs)\<rparr>),
     sizeof_udp_static_t = 4,
     as_udp_static_t = (\<lambda>bs.
       \<lparr>us_src_port = be16 (bs ! 0) (bs ! 1), us_dst_port = be16 (bs ! 2) (bs ! 3)\<rparr>),
     sizeof_ipv4_regular_dynamic_noipid_t = 3,
     as_ipv4_regular_dynamic_noipid_t = (\<lambda>bs.
       \<lparr>d4_reserved = drop_bit 3 (bs ! 0),
        d4_df = ucast (drop_bit 2 (bs ! 0)),
        d4_ip_id_behavior = ucast (bs ! 0),
        d4_tos_tc = bs ! 1,
        d4_ttl_hopl = bs ! 2\<rparr>),
     sizeof_ipv4_regular_dynamic_ipid_t = 5,
     as_ipv4_regular_dynamic_ipid_t = (\<lambda>bs. \<lparr>d4i_ip_id = be16 (bs ! 3) (bs ! 4)\<rparr>),
     sizeof_ipv6_regular_dynamic_t = 2,
     as_ipv6_regular_dynamic_t = (\<lambda>bs. \<lparr>d6_tos_tc = bs ! 0, d6_ttl_hopl = bs ! 1\<rparr>),
     sizeof_udp_endpoint_dynamic_t = 5,
     as_udp_endpoint_dynamic_t = (\<lambda>bs.
       \<lparr>ud_checksum = be16 (bs ! 0) (bs ! 1),
        ud_msn = be16 (bs ! 2) (bs ! 3),
        ud_reorder_ratio = ucast (bs ! 4)\<rparr>)\<rparr>"

text \<open>
  Example helpers, with the reference value as the LSB context: the decoders return the
  received bits, and the sum of the control fields modulo 8 stands in the place of the
  CRC-3.
\<close>

definition example_decomp_helpers :: "u32 decomp_helpers" where
  "example_decomp_helpers =
    \<lparr>ROHC_LSB_SHIFT_VAR = 103,
     rohc_interval_get_rfc5225_msn_p = (\<lambda>bits_nr ratio. 0),
     rohc_lsb_decode = (\<lambda>lsb m k p. Some m),
     d_ip_id_lsb = (\<lambda>lsb msn m k p. Some m),
     rohc_lsb_get_ref = (\<lambda>lsb. lsb),
     rohc_lsb_set_ref = (\<lambda>lsb v. v),
     compute_crc_ctrl_fields = (\<lambda>ratio msn behaviors.
        (ucast ratio + ucast msn + sum_list behaviors) AND 0x07),
     ROHC_RFC_STRICT_DECOMPRESSOR = False\<rparr>"

definition example_ip_context :: ip_context_t where
  "example_ip_context =
    \<lparr>ipc_version = IPV4, vx_version = IPV4, vx_tos_tc = 0, vx_ttl_hopl = 64,
     vx_next_header = 17, vx_ip_id_behavior = 3, v4_df = 1, v4_ip_id = 0,
     v4_src_addr = [192, 168, 0, 1], v4_dst_addr = [192, 168, 0, 2],
     v6_flow_label = 0, v6_src_addr = replicate 16 0, v6_dest_addr = replicate 16 0\<rparr>"

definition example_decomp_ctxt :: "u32 rohc_decomp_ctxt" where
  "example_decomp_ctxt =
    \<lparr>dctxt_state = ROHC_DECOMP_STATE_FC, dctxt_mode = ROHC_U_MODE, num_recv_packets = 4,
     persist_ctxt =
       \<lparr>msn_lsb_ctxt = 4, ip_id_offset_lsb_ctxt = 0, reorder_ratio = 0,
        ip_contexts_nr = 1, ip_contexts = [example_ip_context, example_ip_context],
        pc_udp_sport = 1234, pc_udp_dport = 5020, pc_udp_checksum_used = True,
        pc_rtp_ssrc = 0\<rparr>\<rparr>"

definition example_ip_bits :: rohc_rfc5225_ip_bits where
  "example_ip_bits =
    \<lparr>ipb_version = IP_UNKNOWN, ipb_tos_tc_bits = 0, ipb_tos_tc_bits_nr = 0,
     ipb_id_behavior = 0, ipb_id_behavior_nr = 0,
     ipb_id = \<lparr>lsb_bits = 0, lsb_bits_nr = 0, lsb_p = 0\<rparr>,
     ipb_df = 0, ipb_df_nr = 0, ipb_ttl_hl = 0, ipb_ttl_hl_nr = 0,
     ipb_proto = 0, ipb_proto_nr = 0, ipb_flowid = 0, ipb_flowid_nr = 0,
     ipb_saddr = replicate 16 0, ipb_saddr_nr = 0,
     ipb_daddr = replicate 16 0, ipb_daddr_nr = 0\<rparr>"

definition example_extr_bits :: rohc_rfc5225_bits where
  "example_extr_bits =
    \<lparr>b_ip = [example_ip_bits, example_ip_bits], b_ip_nr = 0,
     b_msn = \<lparr>lsb_bits = 0, lsb_bits_nr = 0, lsb_p = 0\<rparr>,
     b_reorder_ratio = 0, b_reorder_ratio_nr = 0,
     b_outer_ip_flag = 0, b_outer_ip_flag_nr = 0,
     b_ctrl_crc = \<lparr>crc_type = ROHC_CRC_TYPE_NONE, crc_bits = 0, crc_bits_nr = 0\<rparr>,
     b_udp_sport = 1234, b_udp_sport_nr = 16, b_udp_dport = 5020, b_udp_dport_nr = 16,
     b_udp_checksum = 0, b_udp_checksum_nr = 16, b_rtp_ssrc = 0, b_rtp_ssrc_nr = 0\<rparr>"

definition example_decoded_ip :: rohc_rfc5225_decoded_ip where
  "example_decoded_ip =
    \<lparr>dec_version = IP_UNKNOWN, dec_tos_tc = 0, dec_id_behavior = 0, dec_id = 0, dec_df = 0,
     dec_ttl = 0, dec_proto = 0, dec_nbo = 0, dec_rnd = 0, dec_flowid = 0,
     dec_saddr = replicate 16 0, dec_daddr = replicate 16 0\<rparr>"

definition example_decoded_values :: rohc_rfc5225_decoded where
  "example_decoded_values =
    \<lparr>d_ip = [example_decoded_ip, example_decoded_ip], d_ip_nr = 0, d_msn = 0,
     d_reorder_ratio = 0, d_udp_sport = 0, d_udp_dport = 0, d_udp_checksum = 0,
     d_udp_checksum_used = False, d_ssrc = 0\<rparr>"

text \<open>
  A co_repair packet for the example context: the type octet, \<^verbatim>\<open>r1\<close> and CRC-7, \<^verbatim>\<open>r2\<close>
  and the given CRC-3 octet, the IPv4 dynamic part (DF set, zero IP-ID behavior, TOS 0,
  TTL 64) and the UDP dynamic part (checksum 0x1234, MSN 5, reorder ratio 1).
\<close>

definition example_co_repair :: "u8 \<Rightarrow> u8 list" where
  "example_co_repair crc3_octet =
     [0xfb, 0x2a, crc3_octet, 0x07, 0x00, 0x40, 0x12, 0x34, 0x00, 0x05, 0x01]"

text \<open>
  An IR packet whose IPv4 static part has the given first byte: type octet, profile,
  CRC-8, the static part of one IPv4 header, the UDP static part, then the dynamic chain.
\<close>

definition example_ir :: "u8 \<Rightarrow> u8 list" where
  "example_ir static_octet =
     [0xfd, 0x01, 0x5c,
      static_octet, 0x11, 192, 168, 0, 1, 192, 168, 0, 2,
      0x04, 0xd2, 0x13, 0x9c,
      0x07, 0x00, 0x40, 0x12, 0x34, 0x00, 0x05, 0x01]"



section \<open>Theorems\<close>

text \<open>
  C1. In SO state with a single IP header, \<^verbatim>\<open>c_rtp_decide_SO_packet\<close> returns the packet
  type that the selection table of the specification prescribes, earlier rows taking
  priority: UO-0, UO-1-RTP or UOR-2-RTP when the header is not IPv4 with a non-random
  IP-ID, and UO-0, UO-1-TS, UO-1-ID, UOR-2-ID or UOR-2-TS when it is.
\<close>

theorem c_rtp_decide_SO_packet_single_ip_table:
  assumes "nr_of_ip_hdr (g_tmp g) = 1"
  shows "c_rtp_decide_SO_packet sdvl g rtp =
         SO_table_single_ip (is_ipv4_non_rnd (ip_flags g)) (nr_sn_bits (g_tmp g))
           (nr_ts_bits (rtp_tmp rtp)) (nr_ip_id_bits (g_tmp g)) (m_set (rtp_tmp rtp))
           (sdvl (nr_ts_bits (rtp_tmp rtp)))"
  using assms
  by (simp add: c_rtp_decide_SO_packet_def SO_table_single_ip_def is_ipv4_non_rnd_def Let_def)


theorem c_rtp_decide_SO_packet_single_ip_table_witness:
  "nr_of_ip_hdr (g_tmp example_g_context) = 1 \<and>
   c_rtp_decide_SO_packet sdvl_can_length_be_encoded example_g_context example_rtp_context
     = PACKET_UO_1_TS"
  using c_rtp_decide_SO_packet_single_ip_table
          [of example_g_context sdvl_can_length_be_encoded example_rtp_context]
  by (simp add: example_g_context_def example_rtp_context_def SO_table_single_ip_def
                is_ipv4_non_rnd_def)

text \<open>
  C4, as stated, fails: with a single IP header and three changed dynamic fields, but a
  changed static field, \<^verbatim>\<open>c_rtp_decide_FO_packet\<close> returns UOR-2-RTP and not IR-DYN.
\<close>

theorem c_rtp_decide_FO_packet_static_counterexample:
  "nr_of_ip_hdr (g_tmp example_g_context_static) = 1 \<and>
   send_dynamic (g_tmp example_g_context_static) > 2 \<and>
   fst (c_rtp_decide_FO_packet 3 sdvl_can_length_be_encoded example_g_context_static
          example_rtp_context) \<noteq> PACKET_IR_DYN"
  by (simp add: c_rtp_decide_FO_packet_def example_g_context_static_def example_g_context_def)

text \<open>
  C4, amended. In FO state \<^verbatim>\<open>c_rtp_decide_FO_packet\<close> returns UOR-2-RTP (and resets
  \<^verbatim>\<open>ir_dyn_count\<close>) when a static field changed. When no static field changed it returns
  IR-DYN if more than 2 dynamic fields changed with a single IP header or more than 4 with
  several IP headers; it also returns IR-DYN while fewer than \<^verbatim>\<open>MAX_FO_COUNT\<close> IR-DYN
  packets were sent and when more than 14 SN bits are required; in every case the result
  is IR-DYN or a UOR-2 variant, and with a single IP header, enough IR-DYN packets sent,
  at most 2 changed dynamic fields and at most 14 SN bits it is a UOR-2 variant.
\<close>

theorem c_rtp_decide_FO_packet_amended:
  fixes g :: c_generic_context and MAX_FO_COUNT :: int and sdvl :: "nat \<Rightarrow> bool"
    and rtp :: sc_rtp_context
  defines "r \<equiv> c_rtp_decide_FO_packet MAX_FO_COUNT sdvl g rtp"
  defines "many_dynamic \<equiv>
     (nr_of_ip_hdr (g_tmp g) = 1 \<and> send_dynamic (g_tmp g) > 2) \<or>
     (nr_of_ip_hdr (g_tmp g) > 1 \<and> send_dynamic (g_tmp g) > 4)"
  shows "(send_static (g_tmp g) \<noteq> 0 \<longrightarrow> r = (PACKET_UOR_2_RTP, g\<lparr>ir_dyn_count := 0\<rparr>)) \<and>
         (send_static (g_tmp g) = 0 \<and> many_dynamic \<longrightarrow> fst r = PACKET_IR_DYN) \<and>
         (send_static (g_tmp g) = 0 \<and> ir_dyn_count g < MAX_FO_COUNT \<longrightarrow> fst r = PACKET_IR_DYN) \<and>
         (send_static (g_tmp g) = 0 \<and> nr_sn_bits (g_tmp g) > 14 \<longrightarrow> fst r = PACKET_IR_DYN) \<and>
         (fst r = PACKET_IR_DYN \<or> is_UOR_2_variant (fst r)) \<and>
         (send_static (g_tmp g) = 0 \<and> \<not> ir_dyn_count g < MAX_FO_COUNT \<and> \<not> many_dynamic \<and>
          nr_of_ip_hdr (g_tmp g) = 1 \<and> nr_sn_bits (g_tmp g) \<le> 14
            \<longrightarrow> is_UOR_2_variant (fst r))"
  unfolding r_def many_dynamic_def
  by (simp add: c_rtp_decide_FO_packet_def is_UOR_2_variant_def Let_def)

theorem c_rtp_decide_FO_packet_amended_witness:
  "send_static (g_tmp example_g_context) = 0 \<and>
   nr_of_ip_hdr (g_tmp example_g_context) = 1 \<and> send_dynamic (g_tmp example_g_context) > 2 \<and>
   fst (c_rtp_decide_FO_packet 3 sdvl_can_length_be_encoded example_g_context
          example_rtp_context) = PACKET_IR_DYN \<and>
   send_static (g_tmp example_g_context_static) \<noteq> 0 \<and>
   c_rtp_decide_FO_packet 3 sdvl_can_length_be_encoded example_g_context_static
          example_rtp_context
     = (PACKET_UOR_2_RTP, example_g_context_static\<lparr>ir_dyn_count := 0\<rparr>)"
  using c_rtp_decide_FO_packet_amended
          [where g = example_g_context and MAX_FO_COUNT = 3
             and sdvl = sdvl_can_length_be_encoded and rtp = example_rtp_context]
        c_rtp_decide_FO_packet_amended
          [where g = example_g_context_static and MAX_FO_COUNT = 3
             and sdvl = sdvl_can_length_be_encoded and rtp = example_rtp_context]
  by (simp add: example_g_context_static_def example_g_context_def)



subsection \<open>Change detection and extension decision\<close>

lemma rtp_changed_rtp_dynamic_fields:
  "fst (rtp_changed_rtp_dynamic MAX_IR_COUNT rtp_context udp rtp) =
     (if rtp_cc rtp \<noteq> rtp_cc (old_rtp rtp_context) then 2 else 0) +
     (if rtp_ssrc rtp \<noteq> rtp_ssrc (old_rtp rtp_context) then 1 else 0) +
     (if rtp_pt rtp \<noteq> rtp_pt (old_rtp rtp_context) \<or>
         rtp_pt_change_count rtp_context < MAX_IR_COUNT then 1 else 0)"
  by (simp add: rtp_changed_rtp_dynamic_def Let_def)

lemma rtp_changed_rtp_dynamic_old:
  "old_udp (snd (rtp_changed_rtp_dynamic MAX_IR_COUNT rtp_context udp rtp)) = old_udp rtp_context"
  "old_rtp (snd (rtp_changed_rtp_dynamic MAX_IR_COUNT rtp_context udp rtp)) = old_rtp rtp_context"
  by (simp_all add: rtp_changed_rtp_dynamic_def Let_def)

lemma record_rtp_changes_old:
  "old_udp (record_rtp_changes MAX_IR_COUNT rtp_context udp rtp) = old_udp rtp_context"
  "old_rtp (record_rtp_changes MAX_IR_COUNT rtp_context udp rtp) = old_rtp rtp_context"
  by (simp_all add: record_rtp_changes_def Let_def rtp_changed_rtp_dynamic_old)

lemma record_rtp_changes_send_rtp_dynamic:
  "send_rtp_dynamic (rtp_tmp (record_rtp_changes MAX_IR_COUNT rtp_context udp rtp)) =
     fst (rtp_changed_rtp_dynamic MAX_IR_COUNT rtp_context udp rtp)"
  by (simp add: record_rtp_changes_def Let_def)

text \<open>
  C10. \<^verbatim>\<open>rtp_changed_rtp_dynamic\<close> returns 2 for a changed CC, plus 1 for a changed SSRC,
  plus 1 when the PT changed now or within the last \<^verbatim>\<open>MAX_IR_COUNT\<close> packets. The result
  lies between 0 and 4, and it depends neither on the UDP checksum (of the packet or of
  the context, or on the checksum change counter) nor on the RTP Marker bit.
\<close>

theorem rtp_changed_rtp_dynamic_count:
  "fst (rtp_changed_rtp_dynamic MAX_IR_COUNT rtp_context udp rtp) =
     (if rtp_cc rtp \<noteq> rtp_cc (old_rtp rtp_context) then 2 else 0) +
     (if rtp_ssrc rtp \<noteq> rtp_ssrc (old_rtp rtp_context) then 1 else 0) +
     (if rtp_pt rtp \<noteq> rtp_pt (old_rtp rtp_context) \<or>
         rtp_pt_change_count rtp_context < MAX_IR_COUNT then 1 else 0) \<and>
   0 \<le> fst (rtp_changed_rtp_dynamic MAX_IR_COUNT rtp_context udp rtp) \<and>
   fst (rtp_changed_rtp_dynamic MAX_IR_COUNT rtp_context udp rtp) \<le> 4 \<and>
   fst (rtp_changed_rtp_dynamic MAX_IR_COUNT
          (rtp_context\<lparr>old_udp := (old_udp rtp_context)\<lparr>udp_check := old_check\<rparr>,
                       udp_checksum_change_count := k\<rparr>)
          (udp\<lparr>udp_check := new_check\<rparr>) (rtp\<lparr>rtp_m := m\<rparr>)) =
   fst (rtp_changed_rtp_dynamic MAX_IR_COUNT rtp_context udp rtp)"
  by (simp add: rtp_changed_rtp_dynamic_fields)

theorem rtp_changed_rtp_dynamic_count_witness:
  "fst (rtp_changed_rtp_dynamic 3 example_rtp_context
          (example_udp\<lparr>udp_check := 0xbeef\<rparr>)
          (example_rtp\<lparr>rtp_cc := 1, rtp_ssrc := 5, rtp_pt := 9, rtp_m := 1\<rparr>)) = 4 \<and>
   fst (rtp_changed_rtp_dynamic 3 example_rtp_context
          (example_udp\<lparr>udp_check := 0xbeef\<rparr>) (example_rtp\<lparr>rtp_m := 1\<rparr>)) = 0"
  using rtp_changed_rtp_dynamic_count
          [of 3 example_rtp_context "example_udp\<lparr>udp_check := 0xbeef\<rparr>"
              "example_rtp\<lparr>rtp_cc := 1, rtp_ssrc := 5, rtp_pt := 9, rtp_m := 1\<rparr>"]
        rtp_changed_rtp_dynamic_count
          [of 3 example_rtp_context "example_udp\<lparr>udp_check := 0xbeef\<rparr>"
              "example_rtp\<lparr>rtp_m := 1\<rparr>"]
  by (simp add: example_rtp_context_def example_rtp_def)

text \<open>
  C7. \<^verbatim>\<open>c_rtp_decide_extension\<close> returns extension 3 whenever \<^verbatim>\<open>send_rtp_dynamic\<close> is
  positive, and the result of the generic \<^verbatim>\<open>decide_extension\<close> otherwise. After the
  change detection of \<^verbatim>\<open>c_rtp_encode\<close>, \<^verbatim>\<open>send_rtp_dynamic\<close> is positive as soon as the CC,
  the SSRC or the PT of the packet differs from the context, so extension 3 is chosen.
\<close>

theorem c_rtp_decide_extension_ext3:
  "(send_rtp_dynamic (rtp_tmp rtp_context) > 0 \<longrightarrow>
      c_rtp_decide_extension decide_extension context rtp_context = PACKET_EXT_3) \<and>
   (\<not> send_rtp_dynamic (rtp_tmp rtp_context) > 0 \<longrightarrow>
      c_rtp_decide_extension decide_extension context rtp_context = decide_extension context) \<and>
   (rtp_cc rtp \<noteq> rtp_cc (old_rtp rtp_context) \<or> rtp_ssrc rtp \<noteq> rtp_ssrc (old_rtp rtp_context) \<or>
    rtp_pt rtp \<noteq> rtp_pt (old_rtp rtp_context) \<longrightarrow>
      c_rtp_decide_extension decide_extension context
        (record_rtp_changes MAX_IR_COUNT rtp_context udp rtp) = PACKET_EXT_3)"
  by (auto simp add: c_rtp_decide_extension_def record_rtp_changes_send_rtp_dynamic
                rtp_changed_rtp_dynamic_fields)

theorem c_rtp_decide_extension_ext3_witness:
  "send_rtp_dynamic (rtp_tmp (example_rtp_context\<lparr>rtp_tmp :=
      (rtp_tmp example_rtp_context)\<lparr>send_rtp_dynamic := 1\<rparr>\<rparr>)) > 0 \<and>
   c_rtp_decide_extension (\<lambda>c. PACKET_NOEXT) example_context
     (example_rtp_context\<lparr>rtp_tmp :=
        (rtp_tmp example_rtp_context)\<lparr>send_rtp_dynamic := 1\<rparr>\<rparr>) = PACKET_EXT_3 \<and>
   \<not> send_rtp_dynamic (rtp_tmp example_rtp_context) > 0 \<and>
   c_rtp_decide_extension (\<lambda>c. PACKET_NOEXT) example_context example_rtp_context = PACKET_NOEXT \<and>
   rtp_pt (example_rtp\<lparr>rtp_pt := 9\<rparr>) \<noteq> rtp_pt (old_rtp example_rtp_context) \<and>
   c_rtp_decide_extension (\<lambda>c. PACKET_NOEXT) example_context
     (record_rtp_changes 3 example_rtp_context example_udp (example_rtp\<lparr>rtp_pt := 9\<rparr>))
     = PACKET_EXT_3"
  using c_rtp_decide_extension_ext3
          [of "example_rtp_context\<lparr>rtp_tmp :=
                 (rtp_tmp example_rtp_context)\<lparr>send_rtp_dynamic := 1\<rparr>\<rparr>"
              "\<lambda>c. PACKET_NOEXT" example_context "example_rtp\<lparr>rtp_pt := 9\<rparr>" 3 example_udp]
        c_rtp_decide_extension_ext3
          [of example_rtp_context "\<lambda>c. PACKET_NOEXT" example_context
              "example_rtp\<lparr>rtp_pt := 9\<rparr>" 3 example_udp]
  by (simp add: example_rtp_context_def example_rtp_def)

subsection \<open>Scaled timestamp state in the dynamic part\<close>





subsection \<open>The stored UDP and RTP headers\<close>

text \<open>
  C9. Provided the generic encoding leaves the stored headers alone, \<^verbatim>\<open>c_rtp_encode\<close>
  replaces \<^verbatim>\<open>old_udp\<close> and \<^verbatim>\<open>old_rtp\<close> by the UDP and RTP headers of the current packet
  when the encoding succeeded and the packet type chosen for the packet is IR or IR-DYN;
  for every other chosen packet type (and when the encoding fails) both are unchanged.
\<close>

theorem c_rtp_encode_old_headers:
  assumes frame: "\<And>c g r i n d m p q.
            old_udp (enc_rtp_context (c_generic_encode c g r i n d m p q)) = old_udp r \<and>
            old_rtp (enc_rtp_context (c_generic_encode c g r i n d m p q)) = old_rtp r"
    and g: "c_specific context = Some g_context"
    and r: "g_specific g_context = Some rtp_context"
    and res: "res = c_rtp_encode MAX_IR_COUNT c_generic_encode context ip packet_size dest
                      dest_size packet_type payload_offset"
  shows "\<exists>g' rtp_context'.
           c_specific (fst (snd res)) = Some g' \<and> g_specific g' = Some rtp_context' \<and>
           (if 0 \<le> fst res \<and> (tmp_packet_type (g_tmp g') = PACKET_IR \<or>
                                tmp_packet_type (g_tmp g') = PACKET_IR_DYN)
            then \<exists>h. last_ip_header_of ip = Some h \<and>
                     old_udp rtp_context' = fst (ip_get_next_layer h) \<and>
                     old_rtp rtp_context' = snd (ip_get_next_layer h)
            else old_udp rtp_context' = old_udp rtp_context \<and>
                 old_rtp rtp_context' = old_rtp rtp_context)"
proof (cases "last_ip_header_of ip")
  case None
  then show ?thesis
    using g r by (simp add: res c_rtp_encode_def encode_failed_def)
next
  case (Some h)
  show ?thesis
  proof (cases "ip_get_protocol h = IPPROTO_UDP")
    case False
    then show ?thesis
      using g r Some by (simp add: res c_rtp_encode_def encode_failed_def)
  next
    case True
    then show ?thesis
      using g r Some
      by (simp add: res c_rtp_encode_def Let_def frame record_rtp_changes_old)
  qed
qed

theorem c_rtp_encode_old_headers_witness:
  "(\<exists>g' rtp_context'.
      c_specific (fst (snd (c_rtp_encode 3 (example_generic_encode PACKET_IR_DYN) example_context
         example_ip_packet 28 (replicate 32 0) 32 PACKET_UNKNOWN 0))) = Some g' \<and>
      g_specific g' = Some rtp_context' \<and>
      tmp_packet_type (g_tmp g') = PACKET_IR_DYN \<and>
      old_udp rtp_context' = example_udp \<and>
      old_rtp rtp_context' = example_rtp\<lparr>rtp_sn := 8\<rparr>) \<and>
   (\<exists>g' rtp_context'.
      c_specific (fst (snd (c_rtp_encode 3 (example_generic_encode PACKET_UO_0) example_context
         example_ip_packet 28 (replicate 32 0) 32 PACKET_UNKNOWN 0))) = Some g' \<and>
      g_specific g' = Some rtp_context' \<and>
      tmp_packet_type (g_tmp g') = PACKET_UO_0 \<and>
      old_udp rtp_context' = old_udp example_rtp_context \<and>
      old_rtp rtp_context' = old_rtp example_rtp_context)"
proof -
  have frame: "\<And>t c g r i n d m p q.
      old_udp (enc_rtp_context (example_generic_encode t c g r i n d m p q)) = old_udp r \<and>
      old_rtp (enc_rtp_context (example_generic_encode t c g r i n d m p q)) = old_rtp r"
    by (simp add: example_generic_encode_def)
  have g: "c_specific example_context = Some example_g_context"
    by (simp add: example_context_def)
  have r: "g_specific example_g_context = Some example_rtp_context"
    by (simp add: example_g_context_def)
  have h: "last_ip_header_of example_ip_packet = Some example_ip_packet"
    by (simp add: last_ip_header_of_def example_ip_packet_def IPPROTO_IPIP_def IPPROTO_IPV6_def)
  have p: "ip_get_protocol example_ip_packet = IPPROTO_UDP"
    by (simp add: example_ip_packet_def IPPROTO_UDP_def)
  have nl: "ip_get_next_layer example_ip_packet = (example_udp, example_rtp\<lparr>rtp_sn := 8\<rparr>)"
    by (simp add: example_ip_packet_def)
  have t: "\<And>t. tmp_packet_type (g_tmp (the (c_specific (fst (snd
             (c_rtp_encode 3 (example_generic_encode t) example_context
                example_ip_packet 28 (replicate 32 0) 32 PACKET_UNKNOWN 0)))))) = t \<and>
           fst (c_rtp_encode 3 (example_generic_encode t) example_context
                example_ip_packet 28 (replicate 32 0) 32 PACKET_UNKNOWN 0) = 20"
    by (simp add: c_rtp_encode_def g r h p Let_def example_generic_encode_def)
  show ?thesis
    using c_rtp_encode_old_headers
            [where c_generic_encode = "example_generic_encode PACKET_IR_DYN"
               and MAX_IR_COUNT = 3 and ip = example_ip_packet and packet_size = 28
               and dest = "replicate 32 0" and dest_size = 32
               and packet_type = PACKET_UNKNOWN and payload_offset = 0,
             OF frame g r refl]
          c_rtp_encode_old_headers
            [where c_generic_encode = "example_generic_encode PACKET_UO_0"
               and MAX_IR_COUNT = 3 and ip = example_ip_packet and packet_size = 28
               and dest = "replicate 32 0" and dest_size = 32
               and packet_type = PACKET_UNKNOWN and payload_offset = 0,
             OF frame g r refl]
          t [of PACKET_IR_DYN] t [of PACKET_UO_0]
    by (auto simp add: h nl)
qed



section \<open>ROHCv2 IP-only compressor\<close>

text \<open>
  C8. \<^verbatim>\<open>rohc_comp_rfc5225_ip_code_packet\<close> sets the packet type to IR exactly when the
  context is in state IR and to Normal exactly when it is in state FO; in these two
  states it does not abort, and no other packet type is produced.
\<close>

theorem rohc_comp_rfc5225_ip_code_packet_type:
  "(fst (rohc_comp_rfc5225_ip_code_packet H context uncomp_pkt rohc_pkt max_len po)
      = ROHC_PACKET_IR \<longleftrightarrow> ctxt_state context = ROHC_COMP_STATE_IR) \<and>
   (fst (rohc_comp_rfc5225_ip_code_packet H context uncomp_pkt rohc_pkt max_len po)
      = ROHC_PACKET_NORMAL \<longleftrightarrow> ctxt_state context = ROHC_COMP_STATE_FO) \<and>
   (ctxt_state context = ROHC_COMP_STATE_IR \<or> ctxt_state context = ROHC_COMP_STATE_FO \<longrightarrow>
      snd (rohc_comp_rfc5225_ip_code_packet H context uncomp_pkt rohc_pkt max_len po)
        \<noteq> Assertion_failed \<and>
      (fst (rohc_comp_rfc5225_ip_code_packet H context uncomp_pkt rohc_pkt max_len po)
         = ROHC_PACKET_IR \<or>
       fst (rohc_comp_rfc5225_ip_code_packet H context uncomp_pkt rohc_pkt max_len po)
         = ROHC_PACKET_NORMAL))"
  by (auto simp add: rohc_comp_rfc5225_ip_code_packet_def Let_def)

theorem rohc_comp_rfc5225_ip_code_packet_type_witness:
  "ctxt_state example_comp_ctxt = ROHC_COMP_STATE_IR \<and>
   fst (rohc_comp_rfc5225_ip_code_packet example_comp_helpers example_comp_ctxt
          example_net_pkt (replicate 8 0) 8 0) = ROHC_PACKET_IR \<and>
   ctxt_state (example_comp_ctxt\<lparr>ctxt_state := ROHC_COMP_STATE_FO\<rparr>) = ROHC_COMP_STATE_FO \<and>
   fst (rohc_comp_rfc5225_ip_code_packet example_comp_helpers
          (example_comp_ctxt\<lparr>ctxt_state := ROHC_COMP_STATE_FO\<rparr>)
          example_net_pkt (replicate 8 0) 8 0) = ROHC_PACKET_NORMAL \<and>
   snd (rohc_comp_rfc5225_ip_code_packet example_comp_helpers
          (example_comp_ctxt\<lparr>ctxt_state := ROHC_COMP_STATE_FO\<rparr>)
          example_net_pkt (replicate 8 0) 8 0) \<noteq> Assertion_failed"
  using rohc_comp_rfc5225_ip_code_packet_type
          [of example_comp_helpers example_comp_ctxt example_net_pkt "replicate 8 0" 8 0]
        rohc_comp_rfc5225_ip_code_packet_type
          [of example_comp_helpers "example_comp_ctxt\<lparr>ctxt_state := ROHC_COMP_STATE_FO\<rparr>"
              example_net_pkt "replicate 8 0" 8 0]
  by (simp add: example_comp_ctxt_def)

section \<open>ROHCv2 decompressor: malformed packets\<close>














lemma for_each_index_Suc:
  "for_each_index (Suc n) f xs =
     (for_each_index n f xs)[n := f n (for_each_index n f xs ! n)]"
  by (simp add: for_each_index_def)

lemma length_for_each_index [simp]:
  "length (for_each_index n f xs) = length xs"
  by (induction n) (simp_all add: for_each_index_Suc, simp add: for_each_index_def)

lemma nth_for_each_index:
  "j < length xs \<Longrightarrow>
   for_each_index n f xs ! j = (if j < n then f j (xs ! j) else xs ! j)"
proof (induction n)
  case 0
  then show ?case by (simp add: for_each_index_def)
next
  case (Suc n)
  then show ?case
    by (auto simp add: for_each_index_Suc nth_list_update less_Suc_eq)
qed

lemma reset_extr_bits_ip_nr:
  "b_ip_nr (decomp_rfc5225_ip_udp_rtp_reset_extr_bits L V ctxt bits) =
     (if num_recv_packets ctxt \<ge> 1 then ip_contexts_nr (persist_ctxt ctxt) else 0)"
  by (simp add: decomp_rfc5225_ip_udp_rtp_reset_extr_bits_def Let_def)

lemma reset_extr_bits_length:
  "length (b_ip (decomp_rfc5225_ip_udp_rtp_reset_extr_bits L V ctxt bits)) = length (b_ip bits)"
  by (simp add: decomp_rfc5225_ip_udp_rtp_reset_extr_bits_def Let_def)

lemma reset_extr_bits_nth:
  assumes "num_recv_packets ctxt \<ge> 1" and "j < ip_contexts_nr (persist_ctxt ctxt)"
    and "ip_contexts_nr (persist_ctxt ctxt) \<le> ROHC_MAX_IP_HDRS L"
    and "length (b_ip bits) = ROHC_MAX_IP_HDRS L"
  shows "b_ip (decomp_rfc5225_ip_udp_rtp_reset_extr_bits L V ctxt bits) ! j =
           init_ip_bits_from_context (ip_contexts (persist_ctxt ctxt) ! j)
             (reset_ip_bits (b_ip bits ! j))"
  using assms
  by (simp add: decomp_rfc5225_ip_udp_rtp_reset_extr_bits_def Let_def nth_for_each_index)








section \<open>ROHCv2 decompressor: control CRC\<close>

lemma parse_dyn_ip_bits:
  assumes "decomp_rfc5225_ip_udp_rtp_parse_dyn_ip L d
             (init_ip_bits_from_context c (reset_ip_bits b)) = Success (ret, ib)"
  shows "ip_bits_after_dyn_chain L ib"
  using assms
  by (auto simp add: decomp_rfc5225_ip_udp_rtp_parse_dyn_ip_def ip_bits_after_dyn_chain_def
        init_ip_bits_from_context_def reset_ip_bits_def Let_def split: if_splits)

lemma decode_bits_ip_hdr_after_dyn_chain:
  assumes "ip_bits_after_dyn_chain L ib"
  shows "\<exists>dec. decomp_rfc5225_ip_udp_rtp_decode_bits_ip_hdr L H rctx ib ictx msn dip
                 = Success dec"
proof (cases "ipb_version ib = IPV4")
  case True
  with assms show ?thesis
    by (cases "ipb_id_behavior ib = ROHC_IP_ID_BEHAVIOR_ZERO L")
       (simp_all add: ip_bits_after_dyn_chain_def
          decomp_rfc5225_ip_udp_rtp_decode_bits_ip_hdr_def decode_ip_id_def Let_def)
next
  case False
  with assms show ?thesis
    by (simp add: ip_bits_after_dyn_chain_def
          decomp_rfc5225_ip_udp_rtp_decode_bits_ip_hdr_def decode_ip_id_def Let_def)
qed

lemma dyn_ip_loop_bits:
  "dyn_ip_loop L d ips k n p = Success (d', ips', p') \<Longrightarrow> n \<le> length ips \<Longrightarrow>
   (\<And>j. k \<le> j \<Longrightarrow> j < n \<Longrightarrow>
      \<exists>c b. ips ! j = init_ip_bits_from_context c (reset_ip_bits b)) \<Longrightarrow>
   (\<And>j. j < k \<Longrightarrow> ip_bits_after_dyn_chain L (ips ! j)) \<Longrightarrow>
   j < n \<Longrightarrow> ip_bits_after_dyn_chain L (ips' ! j)"
proof (induction L d ips k n p arbitrary: j rule: dyn_ip_loop.induct)
  case (1 L remain_data ips ip_hdrs_nr ip_nr parsed_len)
  show ?case
  proof (cases "ip_hdrs_nr < ip_nr")
    case False
    with "1.prems"(1) have "ips' = ips"
      by (simp add: dyn_ip_loop.simps [of L remain_data ips ip_hdrs_nr ip_nr parsed_len])
    with False "1.prems"(4) [of j] "1.prems"(5) show ?thesis by simp
  next
    case True
    from "1.prems"(3) [of ip_hdrs_nr] True obtain c b where
      init: "ips ! ip_hdrs_nr = init_ip_bits_from_context c (reset_ip_bits b)" by auto
    from "1.prems"(1) True obtain ret ib where
      p: "decomp_rfc5225_ip_udp_rtp_parse_dyn_ip L remain_data (ips ! ip_hdrs_nr)
            = Success (ret, ib)"
      and le: "\<not> length remain_data < ret"
      and rec: "dyn_ip_loop L (drop ret remain_data) (ips[ip_hdrs_nr := ib])
                  (ip_hdrs_nr + 1) ip_nr (parsed_len + ret) = Success (d', ips', p')"
      by (auto simp add: dyn_ip_loop.simps [of L remain_data ips ip_hdrs_nr ip_nr parsed_len]
            split: result.splits if_splits)
    have ok: "ip_bits_after_dyn_chain L ib"
      using p parse_dyn_ip_bits [of L remain_data c b ret ib] by (simp add: init)
    show ?thesis
    proof (rule "1.IH" [OF True p refl le rec])
      show "ip_nr \<le> length (ips[ip_hdrs_nr := ib])" using "1.prems"(2) by simp
    next
      fix i assume "ip_hdrs_nr + 1 \<le> i" "i < ip_nr"
      then show "\<exists>c b. ips[ip_hdrs_nr := ib] ! i
                         = init_ip_bits_from_context c (reset_ip_bits b)"
        using "1.prems"(3) [of i] by simp
    next
      fix i assume "i < ip_hdrs_nr + 1"
      then show "ip_bits_after_dyn_chain L (ips[ip_hdrs_nr := ib] ! i)"
        using "1.prems"(4) [of i] ok True "1.prems"(2)
        by (cases "i = ip_hdrs_nr") simp_all
    next
      show "j < ip_nr" by (rule "1.prems"(5))
    qed
  qed
qed

lemma decode_ip_hdr_loop_after_dyn_chain:
  "(\<And>j. k \<le> j \<Longrightarrow> j < b_ip_nr bits \<Longrightarrow> ip_bits_after_dyn_chain L (b_ip bits ! j)) \<Longrightarrow>
   \<exists>dips'. decode_ip_hdr_loop L H rctx bits msn dips k = Success dips'"
proof (induction L H rctx bits msn dips k rule: decode_ip_hdr_loop.induct)
  case (1 L H rfc5225_ctxt bits decoded_msn dips ip_hdr_nr)
  show ?case
  proof (cases "ip_hdr_nr < b_ip_nr bits")
    case False
    then show ?thesis
      by (simp add: decode_ip_hdr_loop.simps [of L H rfc5225_ctxt bits decoded_msn dips ip_hdr_nr])
  next
    case True
    from "1.prems" [of ip_hdr_nr] True
    have "ip_bits_after_dyn_chain L (b_ip bits ! ip_hdr_nr)" by simp
    from decode_bits_ip_hdr_after_dyn_chain [OF this]
    obtain dec where
      d: "decomp_rfc5225_ip_udp_rtp_decode_bits_ip_hdr L H rfc5225_ctxt (b_ip bits ! ip_hdr_nr)
            (ip_contexts rfc5225_ctxt ! ip_hdr_nr) decoded_msn (dips ! ip_hdr_nr) = Success dec"
      by blast
    have "\<exists>dips'. decode_ip_hdr_loop L H rfc5225_ctxt bits decoded_msn
                     (dips[ip_hdr_nr := dec]) (ip_hdr_nr + 1) = Success dips'"
      by (rule "1.IH" [OF True d]) (use "1.prems" in simp)
    then show ?thesis
      using True d
      by (simp add: decode_ip_hdr_loop.simps [of L H rfc5225_ctxt bits decoded_msn dips ip_hdr_nr])
  qed
qed

lemma collect_fold:
  "fold (\<lambda>i acc. if P i then acc @ [f i] else acc) xs acc0 = acc0 @ map f (filter P xs)"
  by (induction xs arbitrary: acc0) simp_all

lemma collect_ip_id_behaviors_filter:
  "collect_ip_id_behaviors rfc5225_ctxt bits =
     map (\<lambda>i. ucast (ipb_id_behavior (b_ip bits ! i)))
       (filter (\<lambda>i. vx_version (ip_contexts rfc5225_ctxt ! i) = IPV4) [0..<b_ip_nr bits])"
  unfolding collect_ip_id_behaviors_def
  using collect_fold [of "\<lambda>i. vx_version (ip_contexts rfc5225_ctxt ! i) = IPV4"
          "\<lambda>i. ucast (ipb_id_behavior (b_ip bits ! i))" "[0..<b_ip_nr bits]" "[]"]
  by simp

lemma parse_dyn_udp_bits:
  assumes "decomp_rfc5225_ip_udp_rtp_parse_dyn_udp L d bits = Success (ret, bits')"
  shows "b_ip bits' = b_ip bits \<and> b_ip_nr bits' = b_ip_nr bits \<and>
         b_ctrl_crc bits' = b_ctrl_crc bits \<and> lsb_bits_nr (b_msn bits') = 16 \<and>
         b_udp_checksum_nr bits' = 16 \<and> b_reorder_ratio_nr bits' = 2"
  using assms
  by (auto simp add: decomp_rfc5225_ip_udp_rtp_parse_dyn_udp_def Let_def split: if_splits)

lemma parse_dyn_chain_bits:
  assumes p: "decomp_rfc5225_ip_udp_rtp_parse_dyn_chain L d bits = Success (bits', n)"
    and len: "b_ip_nr bits \<le> length (b_ip bits)"
    and init: "\<And>j. j < b_ip_nr bits \<Longrightarrow>
                 \<exists>c b. b_ip bits ! j = init_ip_bits_from_context c (reset_ip_bits b)"
  shows "0 < b_ip_nr bits' \<and> b_ip_nr bits' = b_ip_nr bits \<and>
         b_ctrl_crc bits' = b_ctrl_crc bits \<and> lsb_bits_nr (b_msn bits') = 16 \<and>
         b_udp_checksum_nr bits' = 16 \<and> b_reorder_ratio_nr bits' = 2 \<and>
         (\<forall>j<b_ip_nr bits. ip_bits_after_dyn_chain L (b_ip bits' ! j))"
proof -
  from p have pos: "0 < b_ip_nr bits"
    by (auto simp add: decomp_rfc5225_ip_udp_rtp_parse_dyn_chain_def split: if_splits)
  from p pos obtain rd ips pl ret where
    loop: "dyn_ip_loop L d (b_ip bits) 0 (b_ip_nr bits) 0 = Success (rd, ips, pl)"
    and udp: "decomp_rfc5225_ip_udp_rtp_parse_dyn_udp L rd (bits\<lparr>b_ip := ips\<rparr>)
                = Success (ret, bits')"
    by (auto simp add: decomp_rfc5225_ip_udp_rtp_parse_dyn_chain_def
          split: result.splits if_splits)
  have ips: "ip_bits_after_dyn_chain L (ips ! j)" if "j < b_ip_nr bits" for j
    by (rule dyn_ip_loop_bits [OF loop len _ _ that]) (use init in simp_all)
  from parse_dyn_udp_bits [OF udp] pos ips show ?thesis by simp
qed

lemma parse_co_repair_bits:
  assumes p: "decomp_rfc5225_ip_udp_rtp_parse_pkt L V context rohc_packet large_cid_len
                ROHC_PACKET_CO_REPAIR extr_bits = Success (extr_crc, bits, rohc_hdr_len)"
    and len: "length (b_ip extr_bits) = ROHC_MAX_IP_HDRS L"
    and nr: "ip_contexts_nr (persist_ctxt context) \<le> ROHC_MAX_IP_HDRS L"
  shows "0 < b_ip_nr bits \<and> b_ip_nr bits = ip_contexts_nr (persist_ctxt context) \<and>
         crc_type (b_ctrl_crc bits) = ROHC_CRC_TYPE_3 \<and> crc_bits_nr (b_ctrl_crc bits) = 3 \<and>
         crc_bits (b_ctrl_crc bits) =
           cr_ctrl_crc (as_co_repair_crc_t
             (struct_bytes sizeof_co_repair_crc_t (drop (1 + large_cid_len) rohc_packet))) \<and>
         lsb_bits_nr (b_msn bits) = 16 \<and>
         b_udp_checksum_nr bits = 16 \<and> b_reorder_ratio_nr bits = 2 \<and>
         (\<forall>j<b_ip_nr bits. ip_bits_after_dyn_chain L (b_ip bits ! j))"
proof -
  define bits0 where "bits0 = decomp_rfc5225_ip_udp_rtp_reset_extr_bits L V context extr_bits"
  define crc where "crc = as_co_repair_crc_t
             (struct_bytes sizeof_co_repair_crc_t (drop (1 + large_cid_len) rohc_packet))"
  define bits1 where "bits1 = bits0\<lparr>b_ctrl_crc := \<lparr>crc_type = ROHC_CRC_TYPE_3,
      crc_bits = cr_ctrl_crc crc, crc_bits_nr = 3\<rparr>\<rparr>"
  from p obtain n where
    dyn: "decomp_rfc5225_ip_udp_rtp_parse_dyn_chain L
            (drop sizeof_co_repair_crc_t (drop (1 + large_cid_len) rohc_packet)) bits1
          = Success (bits, n)"
    by (auto simp add: decomp_rfc5225_ip_udp_rtp_parse_pkt_def
          decomp_rfc5225_ip_udp_rtp_parse_co_repair_def Let_def bits0_def bits1_def crc_def
          split: result.splits if_splits)
  from dyn have pos: "0 < b_ip_nr bits1"
    by (auto simp add: decomp_rfc5225_ip_udp_rtp_parse_dyn_chain_def split: if_splits)
  have nr1: "b_ip_nr bits1 =
               (if num_recv_packets context \<ge> 1 then ip_contexts_nr (persist_ctxt context) else 0)"
    by (simp add: bits1_def bits0_def reset_extr_bits_ip_nr)
  with pos have recv: "num_recv_packets context \<ge> 1"
    and nr2: "b_ip_nr bits1 = ip_contexts_nr (persist_ctxt context)"
    by (auto split: if_splits)
  have l1: "b_ip_nr bits1 \<le> length (b_ip bits1)"
    using nr len by (simp add: nr2) (simp add: bits1_def bits0_def reset_extr_bits_length)
  have init: "\<exists>c b. b_ip bits1 ! j = init_ip_bits_from_context c (reset_ip_bits b)"
    if "j < b_ip_nr bits1" for j
  proof -
    from that have "j < ip_contexts_nr (persist_ctxt context)" by (simp add: nr2)
    from reset_extr_bits_nth [OF recv this nr len, of V]
    show ?thesis by (auto simp add: bits1_def bits0_def)
  qed
  from parse_dyn_chain_bits [OF dyn l1 init] nr2
  show ?thesis by (simp add: bits1_def crc_def)
qed

lemma decode_bits_co_repair:
  assumes pos: "0 < b_ip_nr bits"
    and t: "crc_type (b_ctrl_crc bits) = ROHC_CRC_TYPE_3"
    and tn: "crc_bits_nr (b_ctrl_crc bits) = 3"
    and msn: "lsb_bits_nr (b_msn bits) = 16"
    and ck: "b_udp_checksum_nr bits = 16"
    and rr: "b_reorder_ratio_nr bits = 2"
    and ip: "\<And>j. j < b_ip_nr bits \<Longrightarrow> ip_bits_after_dyn_chain L (b_ip bits ! j)"
  shows "\<exists>d. d_msn d = lsb_bits (b_msn bits) \<and> d_reorder_ratio d = b_reorder_ratio bits \<and>
           decomp_rfc5225_ip_udp_rtp_decode_bits L H ctxt bits decoded =
             (if compute_crc_ctrl_fields H (b_reorder_ratio bits) (lsb_bits (b_msn bits))
                   (collect_ip_id_behaviors (persist_ctxt ctxt) bits)
                 \<noteq> crc_bits (b_ctrl_crc bits)
              then Error_status else Success d)"
proof -
  define d5 where "d5 = decoded\<lparr>d_msn := lsb_bits (b_msn bits),
      d_udp_sport := (if b_udp_sport_nr bits = 16 then b_udp_sport bits
                      else pc_udp_sport (persist_ctxt ctxt)),
      d_udp_dport := (if b_udp_dport_nr bits = 16 then b_udp_dport bits
                      else pc_udp_dport (persist_ctxt ctxt)),
      d_udp_checksum := b_udp_checksum bits,
      d_udp_checksum_used := (b_udp_checksum bits \<noteq> 0),
      d_reorder_ratio := b_reorder_ratio bits\<rparr>"
  from decode_ip_hdr_loop_after_dyn_chain [of 0 bits L H "persist_ctxt ctxt" "d_msn d5" "d_ip d5"] ip
  obtain dips where
    loop: "decode_ip_hdr_loop L H (persist_ctxt ctxt) bits (d_msn d5) (d_ip d5) 0 = Success dips"
    by auto
  have hdrs: "decomp_rfc5225_ip_udp_rtp_decode_bits_ip_hdrs L H (persist_ctxt ctxt) bits d5
                = Success (d5\<lparr>d_ip := dips, d_ip_nr := b_ip_nr bits\<rparr>)"
    using pos loop by (simp add: decomp_rfc5225_ip_udp_rtp_decode_bits_ip_hdrs_def)
  have m: "decode_msn H (persist_ctxt ctxt) bits = Success (lsb_bits (b_msn bits))"
    using msn by (simp add: decode_msn_def)
  have "decomp_rfc5225_ip_udp_rtp_decode_bits L H ctxt bits decoded =
             (if compute_crc_ctrl_fields H (b_reorder_ratio bits) (lsb_bits (b_msn bits))
                   (collect_ip_id_behaviors (persist_ctxt ctxt) bits)
                 \<noteq> crc_bits (b_ctrl_crc bits)
              then Error_status else Success (d5\<lparr>d_ip := dips, d_ip_nr := b_ip_nr bits\<rparr>))"
    using pos t tn ck rr hdrs [unfolded d5_def]
    by (simp add: decomp_rfc5225_ip_udp_rtp_decode_bits_def Let_def m d5_def)
  moreover have "d_msn (d5\<lparr>d_ip := dips, d_ip_nr := b_ip_nr bits\<rparr>) = lsb_bits (b_msn bits)"
    "d_reorder_ratio (d5\<lparr>d_ip := dips, d_ip_nr := b_ip_nr bits\<rparr>) = b_reorder_ratio bits"
    by (simp_all add: d5_def)
  ultimately show ?thesis by blast
qed

text \<open>
  C5. For a co_repair packet that the parser accepts, the extracted control CRC is the
  3-bit field of the packet; the decoded reorder ratio and the decoded MSN are the ones
  of the dynamic chain; the decompressor applies \<^verbatim>\<open>compute_crc_ctrl_fields\<close> to them and
  to the IP-ID behaviors of the packet for the headers that the context holds as IPv4,
  in the order of the headers, the other headers being skipped; decoding never aborts
  and fails exactly when the value computed differs from the CRC bits of the packet.
\<close>

theorem decode_bits_control_crc:
  assumes parse: "decomp_rfc5225_ip_udp_rtp_parse_pkt L (ROHC_LSB_SHIFT_VAR H) context
                    rohc_packet large_cid_len ROHC_PACKET_CO_REPAIR extr_bits
                  = Success (extr_crc, bits, rohc_hdr_len)"
    and len: "length (b_ip extr_bits) = ROHC_MAX_IP_HDRS L"
    and nr: "ip_contexts_nr (persist_ctxt context) \<le> ROHC_MAX_IP_HDRS L"
  shows "crc_type (b_ctrl_crc bits) = ROHC_CRC_TYPE_3 \<and>
         crc_bits_nr (b_ctrl_crc bits) = 3 \<and>
         crc_bits (b_ctrl_crc bits) =
           cr_ctrl_crc (as_co_repair_crc_t
             (struct_bytes sizeof_co_repair_crc_t (drop (1 + large_cid_len) rohc_packet))) \<and>
         (decomp_rfc5225_ip_udp_rtp_decode_bits L H context bits decoded_values = Error_status
            \<longleftrightarrow>
          compute_crc_ctrl_fields H (b_reorder_ratio bits) (lsb_bits (b_msn bits))
            (map (\<lambda>i. ucast (ipb_id_behavior (b_ip bits ! i)))
               (filter (\<lambda>i. vx_version (ip_contexts (persist_ctxt context) ! i) = IPV4)
                  [0..<ip_contexts_nr (persist_ctxt context)]))
          \<noteq> crc_bits (b_ctrl_crc bits)) \<and>
         decomp_rfc5225_ip_udp_rtp_decode_bits L H context bits decoded_values \<noteq> Assert_abort \<and>
         (\<forall>decoded.
            decomp_rfc5225_ip_udp_rtp_decode_bits L H context bits decoded_values
              = Success decoded \<longrightarrow>
            d_reorder_ratio decoded = b_reorder_ratio bits \<and>
            d_msn decoded = lsb_bits (b_msn bits))"
proof -
  note b = parse_co_repair_bits [OF parse len nr]
  from b have ip: "\<And>j. j < b_ip_nr bits \<Longrightarrow> ip_bits_after_dyn_chain L (b_ip bits ! j)"
    by blast
  from b have n: "b_ip_nr bits = ip_contexts_nr (persist_ctxt context)" by blast
  from b decode_bits_co_repair [of bits L H "context" decoded_values, OF _ _ _ _ _ _ ip]
  obtain d where d: "d_msn d = lsb_bits (b_msn bits)" "d_reorder_ratio d = b_reorder_ratio bits"
    and dec: "decomp_rfc5225_ip_udp_rtp_decode_bits L H context bits decoded_values =
             (if compute_crc_ctrl_fields H (b_reorder_ratio bits) (lsb_bits (b_msn bits))
                   (collect_ip_id_behaviors (persist_ctxt context) bits)
                 \<noteq> crc_bits (b_ctrl_crc bits)
              then Error_status else Success d)"
    by blast
  from b d show ?thesis
    by (simp add: dec collect_ip_id_behaviors_filter n)
qed

theorem decode_bits_control_crc_witness:
  "(\<exists>extr_crc bits rohc_hdr_len decoded.
      decomp_rfc5225_ip_udp_rtp_parse_pkt example_layout
        (ROHC_LSB_SHIFT_VAR example_decomp_helpers) example_decomp_ctxt (example_co_repair 0x01)
        0 ROHC_PACKET_CO_REPAIR example_extr_bits = Success (extr_crc, bits, rohc_hdr_len) \<and>
      b_reorder_ratio bits = 1 \<and> lsb_bits (b_msn bits) = 5 \<and>
      ipb_id_behavior (b_ip bits ! 0) = 3 \<and> crc_bits (b_ctrl_crc bits) = 1 \<and>
      decomp_rfc5225_ip_udp_rtp_decode_bits example_layout example_decomp_helpers
        example_decomp_ctxt bits example_decoded_values = Success decoded \<and>
      d_reorder_ratio decoded = 1 \<and> d_msn decoded = 5) \<and>
   compute_crc_ctrl_fields example_decomp_helpers 1 5 [3] = 1 \<and>
   (\<exists>extr_crc bits rohc_hdr_len.
      decomp_rfc5225_ip_udp_rtp_parse_pkt example_layout
        (ROHC_LSB_SHIFT_VAR example_decomp_helpers) example_decomp_ctxt (example_co_repair 0x02)
        0 ROHC_PACKET_CO_REPAIR example_extr_bits = Success (extr_crc, bits, rohc_hdr_len) \<and>
      b_reorder_ratio bits = 1 \<and> lsb_bits (b_msn bits) = 5 \<and>
      ipb_id_behavior (b_ip bits ! 0) = 3 \<and> crc_bits (b_ctrl_crc bits) = 2 \<and>
      decomp_rfc5225_ip_udp_rtp_decode_bits example_layout example_decomp_helpers
        example_decomp_ctxt bits example_decoded_values = Error_status)"
proof -
  have len: "length (b_ip example_extr_bits) = ROHC_MAX_IP_HDRS example_layout"
    by code_simp
  have nr: "ip_contexts_nr (persist_ctxt example_decomp_ctxt) \<le> ROHC_MAX_IP_HDRS example_layout"
    by code_simp
  have n1: "ip_contexts_nr (persist_ctxt example_decomp_ctxt) = 1"
    by code_simp
  have v: "vx_version (ip_contexts (persist_ctxt example_decomp_ctxt) ! 0) = IPV4"
    by code_simp
  have crc: "compute_crc_ctrl_fields example_decomp_helpers 1 5 [3] = 1"
    by code_simp
  have "case decomp_rfc5225_ip_udp_rtp_parse_pkt example_layout
               (ROHC_LSB_SHIFT_VAR example_decomp_helpers) example_decomp_ctxt
               (example_co_repair 0x01) 0 ROHC_PACKET_CO_REPAIR example_extr_bits of
          Success (extr_crc, bits, rohc_hdr_len) \<Rightarrow>
            b_reorder_ratio bits = 1 \<and> lsb_bits (b_msn bits) = 5 \<and>
            ipb_id_behavior (b_ip bits ! 0) = 3 \<and> crc_bits (b_ctrl_crc bits) = 1
        | _ \<Rightarrow> False"
    by code_simp
  then obtain c1 b1 h1 where
    p1: "decomp_rfc5225_ip_udp_rtp_parse_pkt example_layout
           (ROHC_LSB_SHIFT_VAR example_decomp_helpers) example_decomp_ctxt
           (example_co_repair 0x01) 0 ROHC_PACKET_CO_REPAIR example_extr_bits
         = Success (c1, b1, h1)"
    and f1: "b_reorder_ratio b1 = 1" "lsb_bits (b_msn b1) = 5"
      "ipb_id_behavior (b_ip b1 ! 0) = 3" "crc_bits (b_ctrl_crc b1) = 1"
    by (auto split: result.splits)
  have "case decomp_rfc5225_ip_udp_rtp_parse_pkt example_layout
               (ROHC_LSB_SHIFT_VAR example_decomp_helpers) example_decomp_ctxt
               (example_co_repair 0x02) 0 ROHC_PACKET_CO_REPAIR example_extr_bits of
          Success (extr_crc, bits, rohc_hdr_len) \<Rightarrow>
            b_reorder_ratio bits = 1 \<and> lsb_bits (b_msn bits) = 5 \<and>
            ipb_id_behavior (b_ip bits ! 0) = 3 \<and> crc_bits (b_ctrl_crc bits) = 2
        | _ \<Rightarrow> False"
    by code_simp
  then obtain c2 b2 h2 where
    p2: "decomp_rfc5225_ip_udp_rtp_parse_pkt example_layout
           (ROHC_LSB_SHIFT_VAR example_decomp_helpers) example_decomp_ctxt
           (example_co_repair 0x02) 0 ROHC_PACKET_CO_REPAIR example_extr_bits
         = Success (c2, b2, h2)"
    and f2: "b_reorder_ratio b2 = 1" "lsb_bits (b_msn b2) = 5"
      "ipb_id_behavior (b_ip b2 ! 0) = 3" "crc_bits (b_ctrl_crc b2) = 2"
    by (auto split: result.splits)
  have r1: "decomp_rfc5225_ip_udp_rtp_decode_bits example_layout example_decomp_helpers
              example_decomp_ctxt b1 example_decoded_values \<noteq> Error_status \<and>
            decomp_rfc5225_ip_udp_rtp_decode_bits example_layout example_decomp_helpers
              example_decomp_ctxt b1 example_decoded_values \<noteq> Assert_abort \<and>
            (\<forall>decoded.
               decomp_rfc5225_ip_udp_rtp_decode_bits example_layout example_decomp_helpers
                 example_decomp_ctxt b1 example_decoded_values = Success decoded \<longrightarrow>
               d_reorder_ratio decoded = 1 \<and> d_msn decoded = 5)"
    using decode_bits_control_crc [OF p1 len nr, of example_decoded_values]
    by (simp add: f1 n1 v crc)
  have r2: "decomp_rfc5225_ip_udp_rtp_decode_bits example_layout example_decomp_helpers
              example_decomp_ctxt b2 example_decoded_values = Error_status"
    using decode_bits_control_crc [OF p2 len nr, of example_decoded_values]
    by (simp add: f2 n1 v crc)
  from r1 obtain decoded where
    "decomp_rfc5225_ip_udp_rtp_decode_bits example_layout example_decomp_helpers
       example_decomp_ctxt b1 example_decoded_values = Success decoded"
    "d_reorder_ratio decoded = 1" "d_msn decoded = 5"
    by (cases "decomp_rfc5225_ip_udp_rtp_decode_bits example_layout example_decomp_helpers
                 example_decomp_ctxt b1 example_decoded_values") auto
  with p1 f1 p2 f2 r2 crc show ?thesis by blast
qed

section \<open>ROHCv2 IR packets\<close>

lemma size_t_sub_no_wrap:
  assumes le: "b \<le> a" and lt: "a < 2 ^ 64"
  shows "size_t_sub a b = a - b"
proof -
  have e: "int a - int b = int (a - b)"
    using le by (simp add: of_nat_diff)
  have "a - b < 2 ^ 64"
    using lt by (rule less_imp_diff_less)
  then have "int (a - b) < int (2 ^ 64)"
    by (simp only: of_nat_less_iff)
  then have b: "int (a - b) < 2 ^ 64"
    by simp
  have m: "int (a - b) mod 2 ^ 64 = int (a - b)"
    using b by (intro mod_pos_pos_trivial) simp_all
  show ?thesis
    unfolding size_t_sub_def e m by (rule nat_int)
qed

lemma code_IR_packet_success:
  assumes cid: "code_cid_values H (ctxt_cid_type context) (ctxt_cid context) rohc_pkt
                  rohc_pkt_max_len = (ret, pkt1, first_position)"
    and ret: "1 \<le> ret" and room: "nat ret + 2 \<le> rohc_pkt_max_len"
    and max: "rohc_pkt_max_len < 2 ^ 64"
  shows "rohc_comp_rfc5225_ip_code_IR_packet H context uncomp_pkt rohc_pkt rohc_pkt_max_len
           payload_offset =
         \<lparr>code_size = ret + 2,
          code_rohc_pkt = pkt1[first_position := 0xfc,
                               nat ret := ucast (ROHCv2_PROFILE_IP AND 0xff),
                               nat ret + 1 := crc_calculate_8 H
                                 (pkt1[first_position := 0xfc,
                                       nat ret := ucast (ROHCv2_PROFILE_IP AND 0xff),
                                       nat ret + 1 := 0]) (nat ret + 1)],
          code_payload_offset = 0\<rparr>"
proof -
  have "size_t_sub rohc_pkt_max_len (nat ret) = rohc_pkt_max_len - nat ret"
    using room max by (intro size_t_sub_no_wrap) simp_all
  with room have "\<not> size_t_sub rohc_pkt_max_len (nat ret) < 2" by simp
  then show ?thesis
    using ret by (simp add: rohc_comp_rfc5225_ip_code_IR_packet_def cid Let_def)
qed

lemma detect_pkt_type_ir:
  "decomp_rfc5225_ip_udp_rtp_detect_pkt_type (b0 # bs) = Returns ROHC_PACKET_IR
     \<longleftrightarrow> b0 = 0xfd"
proof
  assume "decomp_rfc5225_ip_udp_rtp_detect_pkt_type (b0 # bs) = Returns ROHC_PACKET_IR"
  then show "b0 = 0xfd"
    by (simp add: decomp_rfc5225_ip_udp_rtp_detect_pkt_type_def ROHC_PACKET_TYPE_IR_def
          split: if_splits)
next
  assume "b0 = 0xfd"
  then show "decomp_rfc5225_ip_udp_rtp_detect_pkt_type (b0 # bs) = Returns ROHC_PACKET_IR"
    by (simp add: decomp_rfc5225_ip_udp_rtp_detect_pkt_type_def ROHC_PACKET_TYPE_IR_def
          ROHC_PACKET_TYPE_CO_REPAIR_def GET_BIT_7_def GET_BIT_5_7_def GET_BIT_0_7_def)
qed

lemma parse_ir_success:
  assumes p: "decomp_rfc5225_ip_udp_rtp_parse_ir L rohc_packet large_cid_len bits
                = Success (extr_crc, bits', rohc_hdr_len)"
  shows "extr_crc = \<lparr>crc_type = ROHC_CRC_TYPE_NONE,
                      crc_bits = rohc_packet ! (large_cid_len + 2), crc_bits_nr = 8\<rparr> \<and>
         (\<exists>bits1 static_chain_len dyn_chain_len.
            decomp_rfc5225_ip_udp_rtp_parse_static_chain L
              (drop (large_cid_len + 3) rohc_packet) bits = Success (bits1, static_chain_len) \<and>
            decomp_rfc5225_ip_udp_rtp_parse_dyn_chain L
              (drop (large_cid_len + 3 + static_chain_len) rohc_packet) bits1
              = Success (bits', dyn_chain_len) \<and>
            rohc_hdr_len = large_cid_len + 3 + static_chain_len + dyn_chain_len)"
proof -
  have ne: "drop (Suc (Suc large_cid_len)) rohc_packet \<noteq> []"
    using p by (auto simp add: decomp_rfc5225_ip_udp_rtp_parse_ir_def split: if_splits)
  then have lt: "Suc (Suc large_cid_len) < length rohc_packet" by simp
  define d1 where "d1 = drop (large_cid_len + 3) rohc_packet"
  have d: "drop (Suc (Suc large_cid_len)) rohc_packet
             = rohc_packet ! Suc (Suc large_cid_len) # d1"
    using Cons_nth_drop_Suc [OF lt, symmetric] by (simp add: d1_def numeral_3_eq_3)
  from p show ?thesis
    unfolding d1_def [symmetric]
    by (auto simp add: decomp_rfc5225_ip_udp_rtp_parse_ir_def d Let_def d1_def ac_simps
          split: result.splits if_splits)
qed

text \<open>
  C2, as stated, fails for the compressor: in state IR the ROHCv2 IP-only compressor
  chooses the packet type IR and \<^verbatim>\<open>rohc_comp_rfc5225_ip_code_IR_packet\<close> builds a packet of
  three bytes for CID 0 whose first octet is 1111 1100 (0xfc) and not 1111 1101 (0xfd);
  the decompressor does not recognize that packet as IR.
\<close>

theorem rohc_comp_rfc5225_ip_code_IR_packet_octet_counterexample:
  "fst (rohc_comp_rfc5225_ip_code_packet example_comp_helpers example_comp_ctxt
          example_net_pkt (replicate 8 0) 8 7) = ROHC_PACKET_IR \<and>
   code_size (rohc_comp_rfc5225_ip_code_IR_packet example_comp_helpers example_comp_ctxt
                example_net_pkt (replicate 8 0) 8 7) = 3 \<and>
   code_rohc_pkt (rohc_comp_rfc5225_ip_code_IR_packet example_comp_helpers example_comp_ctxt
                    example_net_pkt (replicate 8 0) 8 7) ! 0 = 0xfc \<and>
   code_rohc_pkt (rohc_comp_rfc5225_ip_code_IR_packet example_comp_helpers example_comp_ctxt
                    example_net_pkt (replicate 8 0) 8 7) ! 0 \<noteq> 0xfd \<and>
   decomp_rfc5225_ip_udp_rtp_detect_pkt_type
     (take 3 (code_rohc_pkt (rohc_comp_rfc5225_ip_code_IR_packet example_comp_helpers
                               example_comp_ctxt example_net_pkt (replicate 8 0) 8 7)))
     = Returns ROHC_PACKET_UNKNOWN"
  by code_simp

text \<open>
  C2, amended. The decompressor recognizes a packet as IR exactly when its first octet
  is 1111 1101 (0xfd), and a successful parse of an IR packet reads, after the type
  octet, the large CID and the profile octet, one CRC-8 octet, then the static chain and
  then the dynamic chain, the length of the header being the sum of these parts. The IR
  packet that the IP-only compressor builds has the type octet 1111 1100 (0xfc) at the
  position that the CID encoding leaves for it, then the low byte of the profile
  identifier and one CRC-8 octet computed over the bytes before it; the packet ends
  there, with no static or dynamic chain, and the payload offset is 0.
\<close>

theorem rohcv2_ir_packet_layout:
  "(code_cid_values H (ctxt_cid_type context) (ctxt_cid context) rohc_pkt rohc_pkt_max_len
        = (ret, pkt1, first_position) \<and>
    1 \<le> ret \<and> first_position < nat ret \<and> nat ret + 2 \<le> rohc_pkt_max_len \<and>
    rohc_pkt_max_len < 2 ^ 64 \<and> length pkt1 = rohc_pkt_max_len \<longrightarrow>
    code_size (rohc_comp_rfc5225_ip_code_IR_packet H context uncomp_pkt rohc_pkt
                 rohc_pkt_max_len payload_offset) = ret + 2 \<and>
    code_payload_offset (rohc_comp_rfc5225_ip_code_IR_packet H context uncomp_pkt rohc_pkt
                           rohc_pkt_max_len payload_offset) = 0 \<and>
    code_rohc_pkt (rohc_comp_rfc5225_ip_code_IR_packet H context uncomp_pkt rohc_pkt
                     rohc_pkt_max_len payload_offset) ! first_position = 0xfc \<and>
    code_rohc_pkt (rohc_comp_rfc5225_ip_code_IR_packet H context uncomp_pkt rohc_pkt
                     rohc_pkt_max_len payload_offset) ! nat ret
      = ucast (ROHCv2_PROFILE_IP AND 0xff) \<and>
    code_rohc_pkt (rohc_comp_rfc5225_ip_code_IR_packet H context uncomp_pkt rohc_pkt
                     rohc_pkt_max_len payload_offset) ! (nat ret + 1)
      = crc_calculate_8 H
          (pkt1[first_position := 0xfc, nat ret := ucast (ROHCv2_PROFILE_IP AND 0xff),
                nat ret + 1 := 0]) (nat ret + 1) \<and>
    (\<forall>i. i \<noteq> first_position \<and> i \<noteq> nat ret \<and> i \<noteq> nat ret + 1 \<longrightarrow>
       code_rohc_pkt (rohc_comp_rfc5225_ip_code_IR_packet H context uncomp_pkt rohc_pkt
                        rohc_pkt_max_len payload_offset) ! i = pkt1 ! i)) \<and>
   (rohc_packet \<noteq> [] \<longrightarrow>
      (decomp_rfc5225_ip_udp_rtp_detect_pkt_type rohc_packet = Returns ROHC_PACKET_IR
         \<longleftrightarrow> rohc_packet ! 0 = 0xfd)) \<and>
   (decomp_rfc5225_ip_udp_rtp_parse_ir L rohc_packet large_cid_len bits
      = Success (extr_crc, bits', rohc_hdr_len) \<longrightarrow>
    extr_crc = \<lparr>crc_type = ROHC_CRC_TYPE_NONE,
                 crc_bits = rohc_packet ! (large_cid_len + 2), crc_bits_nr = 8\<rparr> \<and>
    (\<exists>bits1 static_chain_len dyn_chain_len.
       decomp_rfc5225_ip_udp_rtp_parse_static_chain L
         (drop (large_cid_len + 3) rohc_packet) bits = Success (bits1, static_chain_len) \<and>
       decomp_rfc5225_ip_udp_rtp_parse_dyn_chain L
         (drop (large_cid_len + 3 + static_chain_len) rohc_packet) bits1
         = Success (bits', dyn_chain_len) \<and>
       rohc_hdr_len = large_cid_len + 3 + static_chain_len + dyn_chain_len))"
proof (intro conjI impI)
  assume a: "code_cid_values H (ctxt_cid_type context) (ctxt_cid context) rohc_pkt
               rohc_pkt_max_len = (ret, pkt1, first_position) \<and>
    1 \<le> ret \<and> first_position < nat ret \<and> nat ret + 2 \<le> rohc_pkt_max_len \<and>
    rohc_pkt_max_len < 2 ^ 64 \<and> length pkt1 = rohc_pkt_max_len"
  then have r: "rohc_comp_rfc5225_ip_code_IR_packet H context uncomp_pkt rohc_pkt
                  rohc_pkt_max_len payload_offset =
         \<lparr>code_size = ret + 2,
          code_rohc_pkt = pkt1[first_position := 0xfc,
                               nat ret := ucast (ROHCv2_PROFILE_IP AND 0xff),
                               nat ret + 1 := crc_calculate_8 H
                                 (pkt1[first_position := 0xfc,
                                       nat ret := ucast (ROHCv2_PROFILE_IP AND 0xff),
                                       nat ret + 1 := 0]) (nat ret + 1)],
          code_payload_offset = 0\<rparr>"
    by (intro code_IR_packet_success) simp_all
  show "code_size (rohc_comp_rfc5225_ip_code_IR_packet H context uncomp_pkt rohc_pkt
                 rohc_pkt_max_len payload_offset) = ret + 2"
    by (simp add: r)
  show "code_payload_offset (rohc_comp_rfc5225_ip_code_IR_packet H context uncomp_pkt rohc_pkt
                           rohc_pkt_max_len payload_offset) = 0"
    by (simp add: r)
  show "code_rohc_pkt (rohc_comp_rfc5225_ip_code_IR_packet H context uncomp_pkt rohc_pkt
                     rohc_pkt_max_len payload_offset) ! first_position = 0xfc"
    using a by (simp add: r)
  show "code_rohc_pkt (rohc_comp_rfc5225_ip_code_IR_packet H context uncomp_pkt rohc_pkt
                     rohc_pkt_max_len payload_offset) ! nat ret
      = ucast (ROHCv2_PROFILE_IP AND 0xff)"
    using a by (simp add: r)
  show "code_rohc_pkt (rohc_comp_rfc5225_ip_code_IR_packet H context uncomp_pkt rohc_pkt
                     rohc_pkt_max_len payload_offset) ! (nat ret + 1)
      = crc_calculate_8 H
          (pkt1[first_position := 0xfc, nat ret := ucast (ROHCv2_PROFILE_IP AND 0xff),
                nat ret + 1 := 0]) (nat ret + 1)"
    using a by (simp add: r)
  show "\<forall>i. i \<noteq> first_position \<and> i \<noteq> nat ret \<and> i \<noteq> nat ret + 1 \<longrightarrow>
       code_rohc_pkt (rohc_comp_rfc5225_ip_code_IR_packet H context uncomp_pkt rohc_pkt
                        rohc_pkt_max_len payload_offset) ! i = pkt1 ! i"
    by (simp add: r)
next
  assume "rohc_packet \<noteq> []"
  then obtain b0 bs where "rohc_packet = b0 # bs" by (cases rohc_packet) auto
  then show "decomp_rfc5225_ip_udp_rtp_detect_pkt_type rohc_packet = Returns ROHC_PACKET_IR
               \<longleftrightarrow> rohc_packet ! 0 = 0xfd"
    by (simp add: detect_pkt_type_ir)
next
  assume p: "decomp_rfc5225_ip_udp_rtp_parse_ir L rohc_packet large_cid_len bits
               = Success (extr_crc, bits', rohc_hdr_len)"
  from parse_ir_success [OF p]
  show "extr_crc = \<lparr>crc_type = ROHC_CRC_TYPE_NONE,
                      crc_bits = rohc_packet ! (large_cid_len + 2), crc_bits_nr = 8\<rparr>"
    by blast
  from parse_ir_success [OF p]
  show "\<exists>bits1 static_chain_len dyn_chain_len.
       decomp_rfc5225_ip_udp_rtp_parse_static_chain L
         (drop (large_cid_len + 3) rohc_packet) bits = Success (bits1, static_chain_len) \<and>
       decomp_rfc5225_ip_udp_rtp_parse_dyn_chain L
         (drop (large_cid_len + 3 + static_chain_len) rohc_packet) bits1
         = Success (bits', dyn_chain_len) \<and>
       rohc_hdr_len = large_cid_len + 3 + static_chain_len + dyn_chain_len"
    by blast
qed

theorem rohcv2_ir_packet_layout_witness:
  "code_cid_values example_comp_helpers (ctxt_cid_type example_comp_ctxt)
     (ctxt_cid example_comp_ctxt) (replicate 8 0) 8 = (1, replicate 8 0, 0) \<and>
   code_size (rohc_comp_rfc5225_ip_code_IR_packet example_comp_helpers example_comp_ctxt
                example_net_pkt (replicate 8 0) 8 7) = 3 \<and>
   code_payload_offset (rohc_comp_rfc5225_ip_code_IR_packet example_comp_helpers
                          example_comp_ctxt example_net_pkt (replicate 8 0) 8 7) = 0 \<and>
   code_rohc_pkt (rohc_comp_rfc5225_ip_code_IR_packet example_comp_helpers example_comp_ctxt
                    example_net_pkt (replicate 8 0) 8 7) ! 0 = 0xfc \<and>
   code_rohc_pkt (rohc_comp_rfc5225_ip_code_IR_packet example_comp_helpers example_comp_ctxt
                    example_net_pkt (replicate 8 0) 8 7) ! 1 = 0x04 \<and>
   code_rohc_pkt (rohc_comp_rfc5225_ip_code_IR_packet example_comp_helpers example_comp_ctxt
                    example_net_pkt (replicate 8 0) 8 7) ! 2 = 0x07 \<and>
   code_rohc_pkt (rohc_comp_rfc5225_ip_code_IR_packet example_comp_helpers example_comp_ctxt
                    example_net_pkt (replicate 8 0) 8 7) ! 3 = 0 \<and>
   example_ir 0x48 ! 0 = 0xfd \<and>
   decomp_rfc5225_ip_udp_rtp_detect_pkt_type (example_ir 0x48) = Returns ROHC_PACKET_IR \<and>
   (\<exists>extr_crc bits' bits1 dyn_chain_len.
      decomp_rfc5225_ip_udp_rtp_parse_ir example_layout (example_ir 0x48) 0 example_extr_bits
        = Success (extr_crc, bits', 25) \<and>
      crc_bits extr_crc = 0x5c \<and>
      decomp_rfc5225_ip_udp_rtp_parse_static_chain example_layout (drop 3 (example_ir 0x48))
        example_extr_bits = Success (bits1, 14) \<and>
      decomp_rfc5225_ip_udp_rtp_parse_dyn_chain example_layout (drop 17 (example_ir 0x48))
        bits1 = Success (bits', dyn_chain_len) \<and>
      25 = 3 + 14 + dyn_chain_len)"
proof -
  have cid: "code_cid_values example_comp_helpers (ctxt_cid_type example_comp_ctxt)
               (ctxt_cid example_comp_ctxt) (replicate 8 0) 8 = (1, replicate 8 0, 0)"
    by code_simp
  have prof: "ucast (ROHCv2_PROFILE_IP AND 0xff) = (0x04 :: u8)"
    by code_simp
  have crc: "crc_calculate_8 example_comp_helpers
               ((replicate 8 0)[0 := 0xfc, Suc 0 := 0x04, Suc (Suc 0) := 0]) (Suc (Suc 0))
             = 0x07"
    by code_simp
  have ne: "example_ir 0x48 \<noteq> []"
    by (simp add: example_ir_def)
  have b0: "example_ir 0x48 ! 0 = 0xfd"
    by (simp add: example_ir_def)
  have "case decomp_rfc5225_ip_udp_rtp_parse_ir example_layout (example_ir 0x48) 0
               example_extr_bits of
          Success (extr_crc, bits', rohc_hdr_len) \<Rightarrow> rohc_hdr_len = 25
        | _ \<Rightarrow> False"
    by code_simp
  then obtain c b where
    p: "decomp_rfc5225_ip_udp_rtp_parse_ir example_layout (example_ir 0x48) 0
          example_extr_bits = Success (c, b, 25)"
    by (auto split: result.splits)
  have "case decomp_rfc5225_ip_udp_rtp_parse_static_chain example_layout
               (drop 3 (example_ir 0x48)) example_extr_bits of
          Success (bits1, static_chain_len) \<Rightarrow> static_chain_len = 14
        | _ \<Rightarrow> False"
    by code_simp
  then have st: "\<And>bits1 n. decomp_rfc5225_ip_udp_rtp_parse_static_chain example_layout
                   (drop 3 (example_ir 0x48)) example_extr_bits = Success (bits1, n)
                 \<Longrightarrow> n = 14"
    by (auto split: result.splits)
  define r where "r = rohc_comp_rfc5225_ip_code_IR_packet example_comp_helpers
                          example_comp_ctxt example_net_pkt (replicate 8 0) 8 7"
  have h: "code_cid_values example_comp_helpers (ctxt_cid_type example_comp_ctxt)
             (ctxt_cid example_comp_ctxt) (replicate 8 0) 8 = (1, replicate 8 0, 0) \<and>
           1 \<le> (1::int) \<and> 0 < nat 1 \<and> nat 1 + 2 \<le> (8::nat) \<and> (8::nat) < 2 ^ 64 \<and>
           length (replicate 8 (0::u8)) = 8"
    using cid by simp
  have big: "code_size r = 1 + 2 \<and> code_payload_offset r = 0 \<and>
      code_rohc_pkt r ! 0 = 0xfc \<and>
      code_rohc_pkt r ! nat 1 = ucast (ROHCv2_PROFILE_IP AND 0xff) \<and>
      code_rohc_pkt r ! (nat 1 + 1) =
        crc_calculate_8 example_comp_helpers
          ((replicate 8 0)[0 := 0xfc, nat 1 := ucast (ROHCv2_PROFILE_IP AND 0xff),
                           nat 1 + 1 := 0]) (nat 1 + 1) \<and>
      (\<forall>i. i \<noteq> 0 \<and> i \<noteq> nat 1 \<and> i \<noteq> nat 1 + 1 \<longrightarrow>
         code_rohc_pkt r ! i = replicate 8 0 ! i)"
    unfolding r_def
    using rohcv2_ir_packet_layout [of example_comp_helpers example_comp_ctxt "replicate 8 0" 8
            1 "replicate 8 0" 0 example_net_pkt 7, THEN conjunct1] h
    by (rule mp)
  from big have c0: "code_size r = 3" "code_payload_offset r = 0" "code_rohc_pkt r ! 0 = 0xfc"
    by simp_all
  from big prof have c1: "code_rohc_pkt r ! 1 = 0x04"
    by simp
  from big prof crc have c2: "code_rohc_pkt r ! 2 = 0x07"
    by (simp add: numeral_2_eq_2)
  from big have "3 \<noteq> (0::nat) \<and> 3 \<noteq> nat 1 \<and> 3 \<noteq> nat 1 + 1 \<longrightarrow>
                   code_rohc_pkt r ! 3 = replicate 8 0 ! 3"
    by blast
  then have c3: "code_rohc_pkt r ! 3 = 0"
    by simp
  note comp = c0 [unfolded r_def] c1 [unfolded r_def] c2 [unfolded r_def] c3 [unfolded r_def]
  have "decomp_rfc5225_ip_udp_rtp_detect_pkt_type (example_ir 0x48) = Returns ROHC_PACKET_IR
          \<longleftrightarrow> example_ir 0x48 ! 0 = 0xfd"
    using rohcv2_ir_packet_layout [of _ _ _ _ _ _ _ _ _ "example_ir 0x48",
            THEN conjunct2, THEN conjunct1] ne
    by (rule mp)
  with b0 have det: "decomp_rfc5225_ip_udp_rtp_detect_pkt_type (example_ir 0x48)
                       = Returns ROHC_PACKET_IR"
    by simp
  have pr: "c = \<lparr>crc_type = ROHC_CRC_TYPE_NONE, crc_bits = example_ir 0x48 ! (0 + 2),
                  crc_bits_nr = 8\<rparr> \<and>
    (\<exists>bits1 static_chain_len dyn_chain_len.
       decomp_rfc5225_ip_udp_rtp_parse_static_chain example_layout
         (drop (0 + 3) (example_ir 0x48)) example_extr_bits
         = Success (bits1, static_chain_len) \<and>
       decomp_rfc5225_ip_udp_rtp_parse_dyn_chain example_layout
         (drop (0 + 3 + static_chain_len) (example_ir 0x48)) bits1
         = Success (b, dyn_chain_len) \<and>
       25 = 0 + 3 + static_chain_len + dyn_chain_len)"
    using rohcv2_ir_packet_layout [of _ _ _ _ _ _ _ _ _ "example_ir 0x48" example_layout 0
            example_extr_bits c b 25, THEN conjunct2, THEN conjunct2] p
    by (rule mp)
  then obtain bits1 sl dl where
    s0: "decomp_rfc5225_ip_udp_rtp_parse_static_chain example_layout
           (drop (0 + 3) (example_ir 0x48)) example_extr_bits = Success (bits1, sl)"
    and d0: "decomp_rfc5225_ip_udp_rtp_parse_dyn_chain example_layout
               (drop (0 + 3 + sl) (example_ir 0x48)) bits1 = Success (b, dl)"
    and l0: "25 = 0 + 3 + sl + dl"
    by blast
  from s0 have s: "decomp_rfc5225_ip_udp_rtp_parse_static_chain example_layout
                     (drop 3 (example_ir 0x48)) example_extr_bits = Success (bits1, sl)"
    by simp
  from st [OF s] have sl: "sl = 14" .
  from pr have "crc_bits c = example_ir 0x48 ! (0 + 2)"
    by simp
  then have crc_c: "crc_bits c = 0x5c"
    by (simp add: example_ir_def)
  from s d0 l0 have
    "decomp_rfc5225_ip_udp_rtp_parse_static_chain example_layout
       (drop 3 (example_ir 0x48)) example_extr_bits = Success (bits1, 14)"
    "decomp_rfc5225_ip_udp_rtp_parse_dyn_chain example_layout
       (drop 17 (example_ir 0x48)) bits1 = Success (b, dl)"
    "25 = 3 + 14 + dl"
    by (simp_all add: sl)
  with cid comp b0 det p crc_c show ?thesis by blast
qed

end
